theory Spec2Isabelle
  imports Main "HOL-Library.Sublist" "HOL-Library.AList"
begin

section \<open>The pull-request workflow\<close>

text \<open>
  The workflow file \<^verbatim>\<open>Pull Request Build\<close> is configuration: a trigger, a concurrency
  group and one job with six steps. It is embedded as data, field by field; the part of
  the workflow runner's behaviour that the file relies on (event filters, \<^verbatim>\<open>if:\<close>
  conditions, skipping after a failure) is written out as functions over that data.
\<close>

subsection \<open>Expressions and the event context\<close>

text \<open>
  The three context properties the file reads, and the event data that the trigger
  filters look at.
\<close>

record gh_event =
  event_name :: string
  action :: string
  workflow_name :: string
  ref :: string
  changed_paths :: "string list"

text \<open>
  The expressions inside \<^verbatim>\<open>${{ }}\<close> and \<^verbatim>\<open>if:\<close>: a context property,
  a string literal, and \<^verbatim>\<open>!=\<close>.
\<close>

datatype gh_expr =
    Ctx string
  | Lit string
  | NotEq gh_expr gh_expr

datatype gh_val = VStr string | VBool bool

text \<open>A property that the context does not define reads as the empty string.\<close>

definition ctx_get :: "gh_event \<Rightarrow> string \<Rightarrow> string" where
  "ctx_get ev p =
     (if p = ''github.event.action'' then action ev
      else if p = ''github.workflow'' then workflow_name ev
      else if p = ''github.ref'' then ref ev
      else '''')"

text \<open>String comparison in expressions ignores case.\<close>

definition lower_char :: "char \<Rightarrow> char" where
  "lower_char c =
     (let n = (of_char c :: nat) in if 65 \<le> n \<and> n \<le> 90 then char_of (n + 32) else c)"

definition val_text :: "gh_val \<Rightarrow> string" where
  "val_text v = (case v of VStr s \<Rightarrow> s | VBool b \<Rightarrow> (if b then ''true'' else ''false''))"

definition val_eq :: "gh_val \<Rightarrow> gh_val \<Rightarrow> bool" where
  "val_eq a b = (map lower_char (val_text a) = map lower_char (val_text b))"

fun eval_expr :: "gh_event \<Rightarrow> gh_expr \<Rightarrow> gh_val" where
  "eval_expr ev (Ctx p) = VStr (ctx_get ev p)"
| "eval_expr ev (Lit s) = VStr s"
| "eval_expr ev (NotEq a b) = VBool (\<not> val_eq (eval_expr ev a) (eval_expr ev b))"

text \<open>A condition holds unless it evaluates to false or to the empty string.\<close>

definition truthy :: "gh_val \<Rightarrow> bool" where
  "truthy v = (case v of VBool b \<Rightarrow> b | VStr s \<Rightarrow> s \<noteq> [])"

text \<open>A string with interpolated expressions, as in the concurrency group.\<close>

datatype template_part = Text string | Interp gh_expr

fun render :: "gh_event \<Rightarrow> template_part list \<Rightarrow> string" where
  "render ev [] = []"
| "render ev (Text s # ps) = s @ render ev ps"
| "render ev (Interp e # ps) = val_text (eval_expr ev e) @ render ev ps"

subsection \<open>Shell scripts of \<^verbatim>\<open>run:\<close> steps\<close>

datatype sh =
    Simple "string list"
  | Subshell sh
  | IfThen sh "sh list"

subsection \<open>Steps, jobs, the workflow\<close>

record step =
  name :: "string option"
  if_cond :: "gh_expr option"
  uses :: "string option"
  with_params :: "(string \<times> string) list"
  run :: "sh list option"

record job =
  runs_on :: string
  steps :: "step list"

record on_pull_request =
  types :: "string list"
  paths_ignore :: "string list"

record concurrency =
  group :: "template_part list"
  cancel_in_progress :: bool

record workflow =
  wf_name :: string
  pull_request :: on_pull_request
  wf_concurrency :: concurrency
  jobs :: "(string \<times> job) list"

definition not_closed :: gh_expr where
  "not_closed = NotEq (Ctx ''github.event.action'') (Lit ''closed'')"

definition checkout_step :: step where
  "checkout_step =
     \<lparr> name = Some ''Checkout repository'',
       if_cond = Some not_closed,
       uses = Some ''actions/checkout@v4'',
       with_params = [],
       run = None \<rparr>"

definition cache_step :: step where
  "cache_step =
     \<lparr> name = Some ''Setup JupyterBook Cache'',
       if_cond = Some not_closed,
       uses = Some ''actions/cache@v4'',
       with_params = [(''path'', ''_build''), (''key'', ''jupyterbook-20250701'')],
       run = None \<rparr>"

definition setup_pixi_step :: step where
  "setup_pixi_step =
     \<lparr> name = None,
       if_cond = None,
       uses = Some ''./.github/actions/setup-pixi'',
       with_params = [],
       run = None \<rparr>"

definition build_step :: step where
  "build_step =
     \<lparr> name = Some ''Build JupyterBook'',
       if_cond = Some not_closed,
       uses = None,
       with_params = [],
       run = Some [Simple [''jupyter-book'', ''build'', ''./'', ''--warningiserror'', ''--keep-going'']] \<rparr>"

definition dump_logs_step :: step where
  "dump_logs_step =
     \<lparr> name = Some ''Dump Build Logs'',
       if_cond = Some not_closed,
       uses = None,
       with_params = [],
       run = Some [IfThen (Subshell (Simple [''test'', ''-a'', ''_build/html/reports/*log'']))
                     [Simple [''cat'', ''_build/html/reports/*log'']]] \<rparr>"

definition upload_step :: step where
  "upload_step =
     \<lparr> name = Some ''Upload artifact'',
       if_cond = Some not_closed,
       uses = Some ''actions/upload-artifact@v4'',
       with_params = [(''name'', ''html''), (''path'', ''_build/html'')],
       run = None \<rparr>"

definition preview :: job where
  "preview =
     \<lparr> runs_on = ''ubuntu-latest'',
       steps = [checkout_step, cache_step, setup_pixi_step, build_step, dump_logs_step, upload_step] \<rparr>"

definition pull_request_build :: workflow where
  "pull_request_build =
     \<lparr> wf_name = ''Pull Request Build'',
       pull_request =
         \<lparr> types = [''opened'', ''synchronize'', ''reopened'', ''closed''],
           paths_ignore = [''.devcontainer/**''] \<rparr>,
       wf_concurrency =
         \<lparr> group = [Interp (Ctx ''github.workflow''), Text ''-'', Interp (Ctx ''github.ref'')],
           cancel_in_progress = True \<rparr>,
       jobs = [(''preview'', preview)] \<rparr>"

subsection \<open>Path filters\<close>

text \<open>
  A filter pattern is read left to right: \<^verbatim>\<open>**\<close> matches any run of characters,
  \<^verbatim>\<open>*\<close> any run without a slash, every other character itself.
\<close>

datatype glob_tok = GChar char | GStar | GStarStar

fun glob_parse :: "string \<Rightarrow> glob_tok list" where
  "glob_parse [] = []"
| "glob_parse [c] = (if c = CHR ''*'' then [GStar] else [GChar c])"
| "glob_parse (c # d # cs) =
     (if c = CHR ''*'' \<and> d = CHR ''*'' then GStarStar # glob_parse cs
      else if c = CHR ''*'' then GStar # glob_parse (d # cs)
      else GChar c # glob_parse (d # cs))"

fun glob_match :: "glob_tok list \<Rightarrow> string \<Rightarrow> bool" where
  "glob_match [] s = (s = [])"
| "glob_match (GChar c # p) [] = False"
| "glob_match (GChar c # p) (d # s) = (c = d \<and> glob_match p s)"
| "glob_match (GStar # p) [] = glob_match p []"
| "glob_match (GStar # p) (d # s) =
     (glob_match p (d # s) \<or> (d \<noteq> CHR ''/'' \<and> glob_match (GStar # p) s))"
| "glob_match (GStarStar # p) [] = glob_match p []"
| "glob_match (GStarStar # p) (d # s) =
     (glob_match p (d # s) \<or> glob_match (GStarStar # p) s)"

definition path_ignored :: "string list \<Rightarrow> string \<Rightarrow> bool" where
  "path_ignored pats p = list_ex (\<lambda>pat. glob_match (glob_parse pat) p) pats"

text \<open>
  The trigger of the workflow: the event is a pull request event, its activity type is
  listed, and not all changed paths match \<^verbatim>\<open>paths-ignore\<close>.
\<close>

definition triggers :: "workflow \<Rightarrow> gh_event \<Rightarrow> bool" where
  "triggers w ev =
     (event_name ev = ''pull_request''
      \<and> action ev \<in> set (types (pull_request w))
      \<and> \<not> list_all (path_ignored (paths_ignore (pull_request w))) (changed_paths ev))"

definition concurrency_group :: "workflow \<Rightarrow> gh_event \<Rightarrow> string" where
  "concurrency_group w ev = render ev (group (wf_concurrency w))"

subsection \<open>Running the steps of a job\<close>

text \<open>
  A step without \<^verbatim>\<open>if:\<close> runs when no earlier step has failed; a step with a condition
  that names no status function runs when, in addition, the condition holds. Whether a
  step that runs succeeds is not decided by the workflow file: it is the parameter
  \<open>ok\<close>.
\<close>

datatype step_result = Skipped | Succeeded | Failed

definition guard_holds :: "gh_event \<Rightarrow> step \<Rightarrow> bool" where
  "guard_holds ev s =
     (case if_cond s of None \<Rightarrow> True | Some c \<Rightarrow> truthy (eval_expr ev c))"

fun run_steps :: "(step \<Rightarrow> bool) \<Rightarrow> gh_event \<Rightarrow> bool \<Rightarrow> step list \<Rightarrow> step_result list" where
  "run_steps ok ev failed [] = []"
| "run_steps ok ev failed (s # ss) =
     (if \<not> failed \<and> guard_holds ev s
      then (if ok s then Succeeded # run_steps ok ev failed ss
            else Failed # run_steps ok ev True ss)
      else Skipped # run_steps ok ev failed ss)"

definition run_job :: "(step \<Rightarrow> bool) \<Rightarrow> gh_event \<Rightarrow> job \<Rightarrow> step_result list" where
  "run_job ok ev j = run_steps ok ev False (steps j)"

subsection \<open>Kinds of steps\<close>

text \<open>
  The build step is a \<^verbatim>\<open>run:\<close> step whose script is one simple command, the
  documentation generator; the cache and the upload step are recognised by the action
  they use. A script branches when it contains a conditional.
\<close>

definition is_generator_invocation :: "step \<Rightarrow> bool" where
  "is_generator_invocation s =
     (case run s of
        Some [Simple (c # args)] \<Rightarrow> c = ''jupyter-book''
      | _ \<Rightarrow> False)"

definition is_cache_step :: "step \<Rightarrow> bool" where
  "is_cache_step s = (uses s = Some ''actions/cache@v4'')"

definition is_upload_step :: "step \<Rightarrow> bool" where
  "is_upload_step s = (uses s = Some ''actions/upload-artifact@v4'')"

primrec sh_branches :: "sh \<Rightarrow> bool" where
  "sh_branches (Simple ws) = False"
| "sh_branches (Subshell c) = sh_branches c"
| "sh_branches (IfThen c cs) = True"

definition script_branches :: "step \<Rightarrow> bool" where
  "script_branches s = (case run s of None \<Rightarrow> False | Some cs \<Rightarrow> list_ex sh_branches cs)"

subsection \<open>Two events\<close>

definition closed_event :: gh_event where
  "closed_event =
     \<lparr> event_name = ''pull_request'', action = ''closed'',
       workflow_name = ''Pull Request Build'', ref = ''refs/pull/1/merge'',
       changed_paths = [''workshops/scipy2025/index.ipynb''] \<rparr>"

definition opened_event :: gh_event where
  "opened_event =
     \<lparr> event_name = ''pull_request'', action = ''opened'',
       workflow_name = ''Pull Request Build'', ref = ''refs/pull/1/merge'',
       changed_paths = [''.devcontainer/devcontainer.json'', ''workshops/scipy2025/index.ipynb''] \<rparr>"

section \<open>The notebooks\<close>

text \<open>
  A notebook file is a JSON document. The three notebooks are embedded as they are
  stored, key by key and line by line; a character outside ASCII is the bytes of its
  UTF-8 encoding. \<open>basic_computation\<close> is the notebook with the title
  \<^emph>\<open>Basic Computation\<close>, \<open>data_structures\<close> the one with the title
  \<^emph>\<open>Intermediate Xarray DataStructures\<close>, and \<open>scipy2025_index\<close> is
  \<^verbatim>\<open>workshops/scipy2025/index.ipynb\<close>.
\<close>

datatype json =
    JNull
  | JBool bool
  | JNum int
  | JStr string
  | JArr "json list"
  | JObj "(string \<times> json) list"

definition field :: "string \<Rightarrow> json \<Rightarrow> json option" where
  "field k j = (case j of JObj kvs \<Rightarrow> map_of kvs k | _ \<Rightarrow> None)"

definition cells :: "json \<Rightarrow> json list" where
  "cells nb = (case field ''cells'' nb of Some (JArr cs) \<Rightarrow> cs | _ \<Rightarrow> [])"

definition cell_type :: "json \<Rightarrow> string option" where
  "cell_type c = (case field ''cell_type'' c of Some (JStr t) \<Rightarrow> Some t | _ \<Rightarrow> None)"

text \<open>The text of a cell: the lines of its \<^verbatim>\<open>source\<close>.\<close>

definition source_lines :: "json \<Rightarrow> string list" where
  "source_lines c =
     (case field ''source'' c of
        Some (JStr s) \<Rightarrow> [s]
      | Some (JArr ls) \<Rightarrow> concat (map (\<lambda>l. case l of JStr s \<Rightarrow> [s] | _ \<Rightarrow> []) ls)
      | _ \<Rightarrow> [])"

definition basic_computation :: json where
  \<open>basic_computation =
     JObj [
       (''cells'', JArr [
           JObj [
             (''cell_type'', JStr ''markdown''),
             (''metadata'', JObj []),
             (''source'', JArr [
                 JStr ''(fundamentals/basic-computation)=\<newline>'',
                 JStr ''# Basic Computation\<newline>'',
                 JStr ''\<newline>'',
                 JStr ''In this lesson, we discuss how to do scientific computations with xarray\<newline>'',
                 JStr ''objects. Our learning goals are as follows. By the end of the lesson, we will be\<newline>'',
                 JStr ''able to:\<newline>'',
                 JStr ''\<newline>'',
                 JStr ''- Apply basic arithmetic and numpy functions to xarray DataArrays / Dataset.\<newline>'',
                 JStr ''- Use Xarray\'s label-aware reduction operations (e.g. `mean`, `sum`) weighted\<newline>'',
                 JStr ''  reductions.\<newline>'',
                 JStr ''- Apply arbitrary functions to Xarray data via `apply_ufunc`.\<newline>'',
                 JStr ''- Use Xarray\'s broadcasting to compute on arrays of different dimensionality.''])],
           JObj [
             (''cell_type'', JStr ''code''),
             (''execution_count'', JNull),
             (''metadata'', JObj []),
             (''outputs'', JArr []),
             (''source'', JArr [
                 JStr ''import numpy as np\<newline>'',
                 JStr ''import xarray as xr\<newline>'',
                 JStr ''import matplotlib.pyplot as plt\<newline>'',
                 JStr ''\<newline>'',
                 JStr ''# Ask Xarray to not show data values by default\<newline>'',
                 JStr ''xr.set_options(display_expand_data=False)\<newline>'',
                 JStr ''\<newline>'',
                 JStr (''%config InlineBackend.figure_format=\'retina'' @ [CHR 0x27])])],
           JObj [
             (''cell_type'', JStr ''markdown''),
             (''metadata'', JObj []),
             (''source'', JArr [
                 JStr ''## Example Dataset\<newline>'',
                 JStr ''\<newline>'',
                 JStr ''First we load a dataset. We will use the\<newline>'',
                 JStr ''[NOAA Extended Reconstructed Sea Surface Temperature (ERSST) v5](https://www.ncei.noaa.gov/products/extended-reconstructed-sst)\<newline>'',
                 JStr ''product, a widely used and trusted gridded compilation of of historical data going back to 1854.''])],
           JObj [
             (''cell_type'', JStr ''code''),
             (''execution_count'', JNull),
             (''metadata'', JObj []),
             (''outputs'', JArr []),
             (''source'', JArr [
                 JStr ''ds = xr.tutorial.load_dataset("ersstv5")\<newline>'',
                 JStr ''ds''])],
           JObj [
             (''cell_type'', JStr ''markdown''),
             (''metadata'', JObj []),
             (''source'', JArr [
                 JStr ''Let\'s do some basic visualizations of the data, just to make sure it looks\<newline>'',
                 JStr ''reasonable.\<newline>''])],
           JObj [
             (''cell_type'', JStr ''code''),
             (''execution_count'', JNull),
             (''metadata'', JObj []),
             (''outputs'', JArr []),
             (''source'', JArr [
                 JStr ''ds.sst.isel(time=0).plot(vmin=-2, vmax=30);''])],
           JObj [
             (''cell_type'', JStr ''markdown''),
             (''metadata'', JObj []),
             (''source'', JArr [
                 JStr ''## Arithmetic\<newline>'',
                 JStr ''\<newline>'',
                 JStr ''Xarray dataarrays and datasets work seamlessly with arithmetic operators and\<newline>'',
                 JStr ''numpy array functions.\<newline>'',
                 JStr ''\<newline>'',
                 JStr ''For example, imagine we want to convert the temperature (given in Celsius) to\<newline>'',
                 JStr ''Kelvin:\<newline>''])],
           JObj [
             (''cell_type'', JStr ''code''),
             (''execution_count'', JNull),
             (''metadata'', JObj [
                 (''tags'', JArr [])]),
             (''outputs'', JArr []),
             (''source'', JArr [
                 JStr ''sst_kelvin = ds.sst + 273.15\<newline>'',
                 JStr ''sst_kelvin''])],
           JObj [
             (''cell_type'', JStr ''markdown''),
             (''metadata'', JObj []),
             (''source'', JArr [
                 JStr ''The dimensions and coordinates were preserved following the operation.\<newline>'',
                 JStr ''\<newline>'',
                 JStr ''<div class="alert alert-warning">\<newline>'',
                 JStr ''    <strong>Warning:</strong> Although many xarray datasets have a <code>units</code> attribute, which is used in plotting,\<newline>'',
                 JStr ''    Xarray does not inherently understand units. However, xarray can integrate with <a href="https://pint.readthedocs.io/en/0.12/">pint</a>, which provides full unit-aware operations. See <a href="https://pint-xarray.readthedocs.io">pint-xarray</a> for more.\<newline>'',
                 JStr ''</div>\<newline>'',
                 JStr ''\<newline>'',
                 JStr ''\<newline>'',
                 JStr ''## Applying functions\<newline>'',
                 JStr ''\<newline>'',
                 JStr ''We can apply more complex functions to Xarray objects.\<newline>'',
                 JStr ''Imagine we wanted to compute the following expression as a function of SST\<newline>'',
                 JStr (''($'' @ [CHR 0x5C] @ ''Theta$) in Kelvin:\<newline>''),
                 JStr ''\<newline>'',
                 JStr (''$$ f('' @ [CHR 0x5C] @ ''Theta) =  0.5 '' @ [CHR 0x5C] @ ''ln('' @ [CHR 0x5C] @ ''Theta^2) $$\<newline>'')])],
           JObj [
             (''cell_type'', JStr ''code''),
             (''execution_count'', JNull),
             (''metadata'', JObj []),
             (''outputs'', JArr []),
             (''source'', JArr [
                 JStr ''f = 0.5 * np.log(sst_kelvin**2)\<newline>'',
                 JStr ''f''])],
           JObj [
             (''cell_type'', JStr ''markdown''),
             (''metadata'', JObj []),
             (''source'', JArr [
                 JStr ''## Applying Arbitrary Functions\<newline>'',
                 JStr ''\<newline>'',
                 JStr ''It\'s awesome that we can call `np.log(ds)` and have it "just work". However, not\<newline>'',
                 JStr ''all third party libraries work this way.\<newline>'',
                 JStr ''\<newline>'',
                 JStr ''numpy\'s [nan_to_num](https://numpy.org/devdocs/reference/generated/numpy.nan_to_num.html) for example will return a numpy array''])],
           JObj [
             (''cell_type'', JStr ''code''),
             (''execution_count'', JNull),
             (''metadata'', JObj [
                 (''tags'', JArr [
                     JStr ''output_scroll''])]),
             (''outputs'', JArr []),
             (''source'', JArr [
                 JStr ''np.nan_to_num(ds.sst, nan=0)''])],
           JObj [
             (''cell_type'', JStr ''markdown''),
             (''metadata'', JObj []),
             (''source'', JArr [
                 JStr ''It would be nice to keep our dimensions and coordinates. \<newline>'',
                 JStr ''\<newline>'',
                 JStr ''We can accomplish this with [xr.apply_ufunc](https://docs.xarray.dev/en/stable/generated/xarray.apply_ufunc.html#xarray.apply_ufunc)''])],
           JObj [
             (''cell_type'', JStr ''code''),
             (''execution_count'', JNull),
             (''metadata'', JObj []),
             (''outputs'', JArr []),
             (''source'', JArr [
                 JStr ''xr.apply_ufunc(np.nan_to_num, ds.sst, kwargs={"nan": 0})''])],
           JObj [
             (''cell_type'', JStr ''markdown''),
             (''metadata'', JObj []),
             (''source'', JArr [
                 JStr ''```{tip}\<newline>'',
                 JStr ''`apply_ufunc` is a powerful function. It has many options for doing more complicated things. Unfortunately, we don\'t have time to go into more depth here. See the [`apply_ufunc` tutorial material](https://tutorial.xarray.dev/advanced/apply_ufunc/apply_ufunc.html) for more.\<newline>'',
                 JStr ''```\<newline>''])],
           JObj [
             (''cell_type'', JStr ''markdown''),
             (''metadata'', JObj []),
             (''source'', JArr [
                 JStr ''## Reductions\<newline>'',
                 JStr ''\<newline>'',
                 JStr ''Reductions are functions that reduce the dimensionlity of our dataset. For example taking the mean sea surface temperature along `time` of our 3D data, we "reduce" the  `time` dimension and are left with a 2D array.\<newline>'',
                 JStr ''\<newline>'',
                 JStr ''Just like in numpy, we can reduce xarray DataArrays along any number of axes.''])],
           JObj [
             (''cell_type'', JStr ''code''),
             (''execution_count'', JNull),
             (''metadata'', JObj []),
             (''outputs'', JArr []),
             (''source'', JArr [
                 JStr ''sst = ds.sst\<newline>'',
                 JStr ''sst.mean(axis=0)''])],
           JObj [
             (''cell_type'', JStr ''markdown''),
             (''metadata'', JObj []),
             (''source'', JArr [
                 JStr ''However, rather than performing reductions by specifying `axis` (as in numpy), we can instead perform\<newline>'',
                 JStr ''them using _dimension names_. This turns out to be a huge convenience, particularly in\<newline>'',
                 JStr ''complex calculations it can be hard to remember which axis corresponds to \<newline>'',
                 JStr ''which dimension name:''])],
           JObj [
             (''cell_type'', JStr ''code''),
             (''execution_count'', JNull),
             (''metadata'', JObj []),
             (''outputs'', JArr []),
             (''source'', JArr [
                 JStr ''sst.mean(dim="time")''])],
           JObj [
             (''cell_type'', JStr ''markdown''),
             (''metadata'', JObj []),
             (''source'', JArr [
                 JStr ''You can reduce over multiple dimensions''])],
           JObj [
             (''cell_type'', JStr ''code''),
             (''execution_count'', JNull),
             (''metadata'', JObj []),
             (''outputs'', JArr []),
             (''source'', JArr [
                 JStr ''sst.mean(["lat", "time"])''])],
           JObj [
             (''cell_type'', JStr ''markdown''),
             (''metadata'', JObj []),
             (''source'', JArr [
                 JStr ''If no dimension is specified, the reduction is applied across all dimensions.''])],
           JObj [
             (''cell_type'', JStr ''code''),
             (''execution_count'', JNull),
             (''metadata'', JObj []),
             (''outputs'', JArr []),
             (''source'', JArr [
                 JStr ''sst.mean()''])],
           JObj [
             (''cell_type'', JStr ''markdown''),
             (''metadata'', JObj []),
             (''source'', JArr [
                 JStr ''All of the standard numpy reductions (e.g. `min`, `max`, `sum`, `std`, etc.) are\<newline>'',
                 JStr ''available on both [Datasets](https://docs.xarray.dev/en/stable/api.html#aggregation) and [DataArrays](https://docs.xarray.dev/en/stable/api.html#id6).\<newline>''])],
           JObj [
             (''cell_type'', JStr ''markdown''),
             (''metadata'', JObj [
                 (''tags'', JArr [])]),
             (''source'', JArr [
                 JStr ''::::{admonition} Exercise\<newline>'',
                 JStr '':class: tip\<newline>'',
                 JStr ''Take the mean of `sst` in both longitude and latitude. Make a simple timeseries plot.\<newline>'',
                 JStr ''\<newline>'',
                 JStr '':::{admonition} Solution\<newline>'',
                 JStr '':class: dropdown\<newline>'',
                 JStr ''\<newline>'',
                 JStr ''```python\<newline>'',
                 JStr ''sst.mean(["lat", "lon"]).plot();\<newline>'',
                 JStr ''```\<newline>'',
                 JStr '':::\<newline>'',
                 JStr ''::::\<newline>''])]]),
       (''metadata'', JObj [
           (''language_info'', JObj [
               (''codemirror_mode'', JObj [
                   (''name'', JStr ''ipython''),
                   (''version'', JNum 3)]),
               (''file_extension'', JStr ''.py''),
               (''mimetype'', JStr ''text/x-python''),
               (''name'', JStr ''python''),
               (''nbconvert_exporter'', JStr ''python''),
               (''pygments_lexer'', JStr ''ipython3'')])]),
       (''nbformat'', JNum 4),
       (''nbformat_minor'', JNum 4)]\<close>

definition data_structures :: json where
  \<open>data_structures =
     JObj [
       (''cells'', JArr [
           JObj [
             (''attachments'', JObj []),
             (''cell_type'', JStr ''markdown''),
             (''metadata'', JObj []),
             (''source'', JArr [
                 JStr ''# Intermediate Xarray DataStructures\<newline>'',
                 JStr ''<img src="https://docs.xarray.dev/en/stable/_static/Xarray_Logo_RGB_Final.svg" align="right" width="30%">\<newline>'',
                 JStr ''\<newline>'',
                 JStr ''\<newline>'',
                 JStr ''In this lesson, we cover the basics of Xarray data structures. By the\<newline>'',
                 JStr ''end of the lesson, we will be able to:\<newline>'',
                 JStr ''\<newline>'',
                 JStr ''- Understand the basic data structures in Xarray\<newline>'',
                 JStr ''- Inspect `DataArray` and `Dataset` objects.\<newline>'',
                 JStr ''- Select Data using Dataset Coordinates\<newline>'',
                 JStr ''- Understand that these Datastructures generalize across fields\<newline>'',
                 JStr ''\<newline>'',
                 JStr ''\<newline>'',
                 JStr ''We\'ll start by reviewing the various components of the Xarray data model, represented here visually:\<newline>'',
                 JStr ''\<newline>'',
                 JStr ''<img src="https://docs.xarray.dev/en/stable/_images/dataset-diagram.png" align="center" width="50%">\<newline>'',
                 JStr ''\<newline>'',
                 JStr ''\<newline>'',
                 JStr ''\<newline>'',
                 JStr ''## Variable\<newline>'',
                 JStr ''\<newline>'',
                 JStr ''At the the core of everything Xarray works with Variables:\<newline>'',
                 JStr ''\<newline>'',
                 JStr ''Variables hold arbitrary metadata, dimension names, and an Array of data\<newline>'',
                 JStr ''\<newline>'',
                 JStr ''![image.png](../_static/variable.png)\<newline>'',
                 JStr ''\<newline>'',
                 JStr ''## DataArray\<newline>'',
                 JStr ''\<newline>'',
                 JStr ''A DataArray is lowest level object you will regularly interact with. It is a collection of 1 variable containing the data, and optionally Variables associated with the dimensions (coords)\<newline>'',
                 JStr ''\<newline>'',
                 JStr ''![image.png](../_static/dataarray.png)\<newline>'',
                 JStr ''\<newline>'',
                 JStr ''\<newline>'',
                 JStr ''## Dataset\<newline>'',
                 JStr ''\<newline>'',
                 JStr ''A Dataset is also a collection of Variables. However it can contain multiple data variables. All dimensions MUST be compatible. When we access one of the data variables a DataArray will automatically created for us.\<newline>'',
                 JStr ''\<newline>'',
                 JStr ''![image.png](../_static/dataset.png)''])],
           JObj [
             (''cell_type'', JStr ''code''),
             (''execution_count'', JNull),
             (''metadata'', JObj []),
             (''outputs'', JArr []),
             (''source'', JArr [
                 JStr ''import matplotlib.pyplot as plt\<newline>'',
                 JStr ''import numpy as np\<newline>'',
                 JStr ''import xarray as xr''])],
           JObj [
             (''cell_type'', JStr ''markdown''),
             (''metadata'', JObj []),
             (''source'', JArr [
                 JStr ''Xarray has a few small real-world tutorial datasets hosted in the [xarray-data](https://github.com/pydata/xarray-data) GitHub repository.\<newline>'',
                 JStr ''\<newline>'',
                 JStr ''[xarray.tutorial.load_dataset](https://docs.xarray.dev/en/stable/generated/xarray.tutorial.open_dataset.html#xarray.tutorial.open_dataset) is a convenience function to download and open DataSets by name (listed at that link).\<newline>'',
                 JStr ''\<newline>'',
                 JStr ''Here we\'ll use `air temperature` from the [National Center for Environmental Prediction](https://www.weather.gov/ncep/). Xarray objects have convenient HTML representations to give an overview of what we\'re working with:''])],
           JObj [
             (''cell_type'', JStr ''code''),
             (''execution_count'', JNull),
             (''metadata'', JObj []),
             (''outputs'', JArr []),
             (''source'', JArr [
                 JStr ''ds = xr.tutorial.load_dataset("air_temperature")\<newline>'',
                 JStr ''ds''])],
           JObj [
             (''cell_type'', JStr ''markdown''),
             (''metadata'', JObj []),
             (''source'', JArr [
                 JStr ''Note that behind the scenes the `tutorial.open_dataset` downloads a file. It then uses [`xarray.open_dataset`](https://docs.xarray.dev/en/stable/generated/xarray.open_dataset.html#xarray-open-dataset) function to open that file (which for this datasets is a [netCDF](https://www.unidata.ucar.edu/software/netcdf/) file). \<newline>'',
                 JStr ''\<newline>'',
                 JStr ''\<newline>'',
                 JStr ''As a preview of the power of Xarray, using this data structure allows us to make very readable and powerful statements such as:''])],
           JObj [
             (''cell_type'', JStr ''code''),
             (''execution_count'', JNull),
             (''metadata'', JObj []),
             (''outputs'', JArr []),
             (''source'', JArr [
                 JStr ''ds.air.mean(dim="time").plot(x="lon")''])],
           JObj [
             (''cell_type'', JStr ''markdown''),
             (''metadata'', JObj []),
             (''source'', JArr [
                 JStr ''## What\'s in a Dataset? \<newline>'',
                 JStr ''\<newline>'',
                 JStr ''*Many DataArrays!* \<newline>'',
                 JStr ''\<newline>'',
                 JStr ''Datasets are dictionary-like containers of "DataArray"s. They are a mapping of\<newline>'',
                 JStr ''variable name to DataArray:''])],
           JObj [
             (''cell_type'', JStr ''code''),
             (''execution_count'', JNull),
             (''metadata'', JObj []),
             (''outputs'', JArr []),
             (''source'', JArr [
                 JStr ''# pull out "air" dataarray with dictionary syntax\<newline>'',
                 JStr ''ds["air"]''])],
           JObj [
             (''cell_type'', JStr ''markdown''),
             (''metadata'', JObj []),
             (''source'', JArr [
                 JStr ''You can save some typing by using the "attribute" or "dot" notation. This won\'t\<newline>'',
                 JStr ''work for variable names that clash with a built-in method name (like `mean` for\<newline>'',
                 JStr ''example).\<newline>''])],
           JObj [
             (''cell_type'', JStr ''code''),
             (''execution_count'', JNull),
             (''metadata'', JObj []),
             (''outputs'', JArr []),
             (''source'', JArr [
                 JStr ''# pull out dataarray using dot notation\<newline>'',
                 JStr ''ds.air''])],
           JObj [
             (''cell_type'', JStr ''markdown''),
             (''metadata'', JObj []),
             (''source'', JArr [
                 JStr ''## What\'s in a DataArray? \<newline>'',
                 JStr ''\<newline>'',
                 JStr ''*data + (a lot of) metadata*''])],
           JObj [
             (''cell_type'', JStr ''markdown''),
             (''metadata'', JObj []),
             (''source'', JArr [
                 JStr ''### Name (optional)''])],
           JObj [
             (''cell_type'', JStr ''code''),
             (''execution_count'', JNull),
             (''metadata'', JObj []),
             (''outputs'', JArr []),
             (''source'', JArr [
                 JStr ''da = ds.air\<newline>'',
                 JStr ''\<newline>'',
                 JStr ''da.name''])],
           JObj [
             (''cell_type'', JStr ''markdown''),
             (''metadata'', JObj []),
             (''source'', JArr [
                 JStr ''### Named dimensions \<newline>'',
                 JStr ''\<newline>'',
                 JStr ''`.dims` correspond to the axes of your data. \<newline>'',
                 JStr ''\<newline>'',
                 JStr ''In this case we have 2 spatial dimensions (`latitude` and `longitude` are stored with shorthand names `lat` and `lon`) and one temporal dimension (`time`).''])],
           JObj [
             (''cell_type'', JStr ''code''),
             (''execution_count'', JNull),
             (''metadata'', JObj []),
             (''outputs'', JArr []),
             (''source'', JArr [
                 JStr ''da.dims''])],
           JObj [
             (''cell_type'', JStr ''markdown''),
             (''metadata'', JObj []),
             (''source'', JArr [
                 JStr ''### Coordinate variables \<newline>'',
                 JStr ''\<newline>'',
                 JStr ''`.coords` is a simple [data container](https://docs.xarray.dev/en/stable/user-guide/data-structures.html#coordinates)\<newline>'',
                 JStr ''for coordinate variables.\<newline>'',
                 JStr ''\<newline>'',
                 JStr ''Here we see the actual timestamps and spatial positions of our air temperature data:''])],
           JObj [
             (''cell_type'', JStr ''code''),
             (''execution_count'', JNull),
             (''metadata'', JObj []),
             (''outputs'', JArr []),
             (''source'', JArr [
                 JStr ''da.coords''])],
           JObj [
             (''cell_type'', JStr ''markdown''),
             (''metadata'', JObj []),
             (''source'', JArr [
                 JStr ''Coordinates objects support similar indexing notation\<newline>''])],
           JObj [
             (''cell_type'', JStr ''code''),
             (''execution_count'', JNull),
             (''metadata'', JObj []),
             (''outputs'', JArr []),
             (''source'', JArr [
                 JStr ''# extracting coordinate variables\<newline>'',
                 JStr ''da.lon''])],
           JObj [
             (''cell_type'', JStr ''code''),
             (''execution_count'', JNull),
             (''metadata'', JObj []),
             (''outputs'', JArr []),
             (''source'', JArr [
                 JStr ''# extracting coordinate variables from .coords\<newline>'',
                 JStr ''da.coords["lon"]''])],
           JObj [
             (''cell_type'', JStr ''markdown''),
             (''metadata'', JObj []),
             (''source'', JArr [
                 JStr ''It is useful to think of the values in these coordinate variables as axis\<newline>'',
                 JStr ''"labels" such as "tick labels" in a figure. These are coordinate locations on a\<newline>'',
                 JStr ''grid at which you have data.\<newline>''])],
           JObj [
             (''cell_type'', JStr ''markdown''),
             (''metadata'', JObj []),
             (''source'', JArr [
                 JStr ''### Arbitrary attributes \<newline>'',
                 JStr ''\<newline>'',
                 JStr ''`.attrs` is a dictionary that can contain arbitrary Python objects (strings, lists, integers, dictionaries, etc.) Your only\<newline>'',
                 JStr ''limitation is that some attributes may not be writeable to certain file formats.''])],
           JObj [
             (''cell_type'', JStr ''code''),
             (''execution_count'', JNull),
             (''metadata'', JObj []),
             (''outputs'', JArr []),
             (''source'', JArr [
                 JStr ''da.attrs''])],
           JObj [
             (''cell_type'', JStr ''code''),
             (''execution_count'', JNull),
             (''metadata'', JObj []),
             (''outputs'', JArr []),
             (''source'', JArr [
                 JStr ''# assign your own attributes!\<newline>'',
                 JStr ''da.attrs["who_is_awesome"] = "xarray"\<newline>'',
                 JStr ''da.attrs''])],
           JObj [
             (''cell_type'', JStr ''code''),
             (''execution_count'', JNull),
             (''metadata'', JObj []),
             (''outputs'', JArr []),
             (''source'', JArr [
                 JStr ''da''])],
           JObj [
             (''cell_type'', JStr ''markdown''),
             (''metadata'', JObj []),
             (''source'', JArr [
                 JStr ''### Underlying data \<newline>'',
                 JStr ''\<newline>'',
                 JStr ''`.data` contains the [numpy array](https://numpy.org) storing air temperature values.\<newline>'',
                 JStr ''\<newline>'',
                 JStr ''<img src="https://raw.githubusercontent.com/numpy/numpy/623bc1fae1d47df24e7f1e29321d0c0ba2771ce0/branding/logo/primary/numpylogo.svg" width="25%">\<newline>'',
                 JStr ''\<newline>'',
                 JStr ''Xarray structures wrap underlying simpler array-like data structures. This part of Xarray is quite extensible allowing for distributed array, GPU arrays, sparse arrays, arrays with units etc. We\'ll  briefly look at this later in this tutorial.''])],
           JObj [
             (''cell_type'', JStr ''code''),
             (''execution_count'', JNull),
             (''metadata'', JObj []),
             (''outputs'', JArr []),
             (''source'', JArr [
                 JStr ''da.data''])],
           JObj [
             (''cell_type'', JStr ''code''),
             (''execution_count'', JNull),
             (''metadata'', JObj []),
             (''outputs'', JArr []),
             (''source'', JArr [
                 JStr ''# what is the type of the underlying data\<newline>'',
                 JStr ''type(da.data)''])],
           JObj [
             (''attachments'', JObj []),
             (''cell_type'', JStr ''markdown''),
             (''metadata'', JObj []),
             (''source'', JArr [
                 JStr ''### Review\<newline>'',
                 JStr ''\<newline>'',
                 JStr ''Two of Xarray\'s main data structures are:\<newline>'',
                 JStr ''\<newline>'',
                 JStr ''1. [`DataArrays`](https://docs.xarray.dev/en/stable/user-guide/data-structures.html#dataarray) that wrap underlying data containers (e.g. numpy arrays) and contain associated metadata\<newline>'',
                 JStr ''1. [`Datasets`](https://docs.xarray.dev/en/stable/user-guide/data-structures.html#dataset) that are dictionary-like containers of DataArrays\<newline>'',
                 JStr ''\<newline>'',
                 JStr ''DataArrays contain underlying arrays and associated metadata:\<newline>'',
                 JStr ''1. Name\<newline>'',
                 JStr ''2. Dimension names\<newline>'',
                 JStr ''3. Coordinate variables\<newline>'',
                 JStr ''4. and arbitrary attributes.\<newline>'',
                 JStr ''\<newline>'',
                 JStr ''![image.png](../_static/variable.png)\<newline>'',
                 JStr ''\<newline>'',
                 JStr ''![image.png](../_static/dataarray.png)\<newline>'',
                 JStr ''\<newline>'',
                 JStr ''![image.png](../_static/dataset.png)\<newline>'',
                 JStr ''\<newline>'',
                 JStr ''\<newline>'',
                 JStr ''<img src="https://docs.xarray.dev/en/stable/_images/dataset-diagram.png" align="center" width="50%">''])],
           JObj [
             (''cell_type'', JStr ''markdown''),
             (''metadata'', JObj []),
             (''source'', JArr [
                 JStr ''## Exercise\<newline>'',
                 JStr ''\<newline>'',
                 JStr ''In this exercise the air dataset has been deconstructed into a dictionary of NumPy arrays. Please\<newline>'',
                 JStr ''\<newline>'',
                 JStr ''- Build a Dataset from scratch from this dictionary of NumPy arrays.\<newline>'',
                 JStr ''\<newline>'',
                 JStr ''\<newline>'',
                 JStr ''Hint: You will want to start by building DataArrays, then combining them into a Dataset.\<newline>''])],
           JObj [
             (''cell_type'', JStr ''code''),
             (''execution_count'', JNull),
             (''metadata'', JObj []),
             (''outputs'', JArr []),
             (''source'', JArr [
                 JStr ''def air_as_dictionary():\<newline>'',
                 JStr ''    ds = xr.tutorial.open_dataset("air_temperature")\<newline>'',
                 JStr ''    return {\<newline>'',
                 JStr ''        \'lat\': ds[\'lat\'].values,\<newline>'',
                 JStr ''        \'lon\': ds[\'lon\'].values,\<newline>'',
                 JStr ''        \'attrs\': ds.attrs,\<newline>'',
                 JStr ''        \'time\': ds[\'time\'].values,\<newline>'',
                 JStr ''        \'air-temp\': ds[\'air\'].values,\<newline>'',
                 JStr ''    }\<newline>'',
                 JStr ''\<newline>'',
                 JStr ''\<newline>'',
                 JStr ''data = air_as_dictionary()\<newline>'',
                 JStr ''\<newline>'',
                 JStr ''\<newline>'',
                 JStr ''# Your code here''])],
           JObj [
             (''cell_type'', JStr ''markdown''),
             (''metadata'', JObj []),
             (''source'', JArr [
                 JStr ''## Why Xarray? \<newline>'',
                 JStr ''\<newline>'',
                 JStr ''Metadata provides context and provides code that is more legible. This reduces the likelihood of errors from typos and makes analysis more intuitive and fun!\<newline>'',
                 JStr ''\<newline>'',
                 JStr ''### Analysis without xarray: `X(`''])],
           JObj [
             (''cell_type'', JStr ''code''),
             (''execution_count'', JNull),
             (''metadata'', JObj []),
             (''outputs'', JArr []),
             (''source'', JArr [
                 JStr ''# plot the first timestep\<newline>'',
                 JStr ''lat = ds.air.lat.data  # numpy array\<newline>'',
                 JStr ''lon = ds.air.lon.data  # numpy array\<newline>'',
                 JStr ''temp = ds.air.data  # numpy array''])],
           JObj [
             (''cell_type'', JStr ''code''),
             (''execution_count'', JNull),
             (''metadata'', JObj []),
             (''outputs'', JArr []),
             (''source'', JArr [
                 JStr ''plt.figure()\<newline>'',
                 JStr ''plt.pcolormesh(lon, lat, temp[0, :, :]);''])],
           JObj [
             (''cell_type'', JStr ''code''),
             (''execution_count'', JNull),
             (''metadata'', JObj []),
             (''outputs'', JArr []),
             (''source'', JArr [
                 JStr ''temp.mean(axis=1)  ## what did I just do? I can\'t tell by looking at this line.''])],
           JObj [
             (''cell_type'', JStr ''markdown''),
             (''metadata'', JObj []),
             (''source'', JArr [
                 JStr ''### Analysis with xarray `=)`\<newline>'',
                 JStr ''\<newline>'',
                 JStr ''How readable is this code?\<newline>''])],
           JObj [
             (''cell_type'', JStr ''code''),
             (''execution_count'', JNull),
             (''metadata'', JObj []),
             (''outputs'', JArr []),
             (''source'', JArr [
                 JStr ''ds.air.isel(time=0).plot(x="lon");''])],
           JObj [
             (''cell_type'', JStr ''markdown''),
             (''metadata'', JObj []),
             (''source'', JArr [
                 JStr ''Use dimension names instead of axis numbers\<newline>''])],
           JObj [
             (''cell_type'', JStr ''code''),
             (''execution_count'', JNull),
             (''metadata'', JObj []),
             (''outputs'', JArr []),
             (''source'', JArr [
                 JStr ''ds.air.mean(dim="time").plot(x="lon")''])],
           JObj [
             (''cell_type'', JStr ''markdown''),
             (''metadata'', JObj []),
             (''source'', JArr [
                 JStr ''---\<newline>'',
                 JStr ''\<newline>'',
                 JStr ''## Extracting data or "indexing" \<newline>'',
                 JStr ''\<newline>'',
                 JStr ''Xarray supports\<newline>'',
                 JStr ''\<newline>'',
                 JStr ''- label-based indexing using `.sel`\<newline>'',
                 JStr ''- position-based indexing using `.isel`\<newline>'',
                 JStr ''\<newline>'',
                 JStr ''See the [user guide](https://docs.xarray.dev/en/stable/indexing.html) for more.''])],
           JObj [
             (''cell_type'', JStr ''markdown''),
             (''metadata'', JObj []),
             (''source'', JArr [
                 JStr ''### Label-based indexing\<newline>'',
                 JStr ''\<newline>'',
                 JStr ''Xarray inherits its label-based indexing rules from pandas; this means great\<newline>'',
                 JStr ''support for dates and times!\<newline>''])],
           JObj [
             (''cell_type'', JStr ''code''),
             (''execution_count'', JNull),
             (''metadata'', JObj []),
             (''outputs'', JArr []),
             (''source'', JArr [
                 JStr ''# here\'s what ds looks like\<newline>'',
                 JStr ''ds''])],
           JObj [
             (''cell_type'', JStr ''code''),
             (''execution_count'', JNull),
             (''metadata'', JObj []),
             (''outputs'', JArr []),
             (''source'', JArr [
                 JStr ''# pull out data for all of 2013-May\<newline>'',
                 JStr ''ds.sel(time="2013-05")''])],
           JObj [
             (''cell_type'', JStr ''code''),
             (''execution_count'', JNull),
             (''metadata'', JObj []),
             (''outputs'', JArr []),
             (''source'', JArr [
                 JStr ''# demonstrate slicing\<newline>'',
                 JStr ''ds.sel(time=slice("2013-05", "2013-07"))''])],
           JObj [
             (''cell_type'', JStr ''code''),
             (''execution_count'', JNull),
             (''metadata'', JObj []),
             (''outputs'', JArr []),
             (''source'', JArr [
                 JStr ''ds.sel(time="2013")''])],
           JObj [
             (''cell_type'', JStr ''code''),
             (''execution_count'', JNull),
             (''metadata'', JObj []),
             (''outputs'', JArr []),
             (''source'', JArr [
                 JStr ''# demonstrate "nearest" indexing\<newline>'',
                 JStr ''ds.sel(lon=240.2, method="nearest")''])],
           JObj [
             (''cell_type'', JStr ''code''),
             (''execution_count'', JNull),
             (''metadata'', JObj []),
             (''outputs'', JArr []),
             (''source'', JArr [
                 JStr ''# "nearest indexing at multiple points"\<newline>'',
                 JStr ''ds.sel(lon=[240.125, 234], lat=[40.3, 50.3], method="nearest")''])],
           JObj [
             (''cell_type'', JStr ''markdown''),
             (''metadata'', JObj []),
             (''source'', JArr [
                 JStr ''### Position-based indexing\<newline>'',
                 JStr ''\<newline>'',
                 JStr ''This is similar to your usual numpy `array[0, 2, 3]` but with the power of named\<newline>'',
                 JStr ''dimensions!\<newline>''])],
           JObj [
             (''cell_type'', JStr ''code''),
             (''execution_count'', JNull),
             (''metadata'', JObj []),
             (''outputs'', JArr []),
             (''source'', JArr [
                 JStr ''ds.air.data[0, 2, 3]''])],
           JObj [
             (''cell_type'', JStr ''code''),
             (''execution_count'', JNull),
             (''metadata'', JObj []),
             (''outputs'', JArr []),
             (''source'', JArr [
                 JStr ''# pull out time index 0, lat index 2, and lon index 3\<newline>'',
                 JStr ''ds.air.isel(time=0, lat=2, lon=3)  #  much better than ds.air[0, 2, 3]''])],
           JObj [
             (''cell_type'', JStr ''code''),
             (''execution_count'', JNull),
             (''metadata'', JObj []),
             (''outputs'', JArr []),
             (''source'', JArr [
                 JStr ''# demonstrate slicing\<newline>'',
                 JStr ''ds.air.isel(lat=slice(10))''])],
           JObj [
             (''cell_type'', JStr ''markdown''),
             (''metadata'', JObj []),
             (''source'', JArr [
                 JStr ''## Other field DataStructures\<newline>'',
                 JStr ''\<newline>'',
                 JStr ''\<newline>'',
                 JStr ''Link to next notebook: [Data structures In Biology](../../intermediate/BiologyDataset.ipynb)''])],
           JObj [
             (''cell_type'', JStr ''markdown''),
             (''metadata'', JObj []),
             (''source'', JArr [
                 JStr ''## Exercise\<newline>'',
                 JStr ''\<newline>'',
                 JStr ''Dataset of non-alignable data.\<newline>'',
                 JStr ''\<newline>'',
                 JStr ''For this exercise we will be using the `"precipitation"` example data. This data has two parts observed rainfall (`observed`), and predicted rainfall, on a different lat-lon grid. The next cell calls a function that will give you two different Datasets. Try to combine them using the tools we\'ve discussed thus far and observe what goes wrong.\<newline>''])],
           JObj [
             (''cell_type'', JStr ''code''),
             (''execution_count'', JNull),
             (''metadata'', JObj []),
             (''outputs'', JArr []),
             (''source'', JArr [
                 JStr ''tree = xr.tutorial.open_datatree(\'precipitation.nc4\')\<newline>'',
                 JStr ''reanalysis = xr.Dataset(tree[\'observed\'])\<newline>'',
                 JStr ''observed = xr.Dataset(tree[\'reanalysis\'])''])],
           JObj [
             (''cell_type'', JStr ''code''),
             (''execution_count'', JNull),
             (''metadata'', JObj []),
             (''outputs'', JArr []),
             (''source'', JArr [])],
           JObj [
             (''cell_type'', JStr ''markdown''),
             (''metadata'', JObj []),
             (''source'', JArr [
                 JStr ''For more see the [user guide](https://docs.xarray.dev/en/stable/plotting.html), the [gallery](https://docs.xarray.dev/en/stable/examples/visualization_gallery.html), and [the tutorial material](https://tutorial.xarray.dev/fundamentals/04.0_plotting.html).''])],
           JObj [
             (''cell_type'', JStr ''code''),
             (''execution_count'', JNull),
             (''metadata'', JObj []),
             (''outputs'', JArr []),
             (''source'', JArr [])],
           JObj [
             (''cell_type'', JStr ''code''),
             (''execution_count'', JNull),
             (''metadata'', JObj []),
             (''outputs'', JArr []),
             (''source'', JArr [])]]),
       (''metadata'', JObj [
           (''language_info'', JObj [
               (''codemirror_mode'', JObj [
                   (''name'', JStr ''ipython''),
                   (''version'', JNum 3)]),
               (''file_extension'', JStr ''.py''),
               (''mimetype'', JStr ''text/x-python''),
               (''name'', JStr ''python''),
               (''nbconvert_exporter'', JStr ''python''),
               (''pygments_lexer'', JStr ''ipython3'')]),
           (''toc'', JObj [
               (''base_numbering'', JNum 1),
               (''nav_menu'', JObj []),
               (''number_sections'', JBool True),
               (''sideBar'', JBool True),
               (''skip_h1_title'', JBool False),
               (''title_cell'', JStr ''Table of Contents''),
               (''title_sidebar'', JStr ''Contents''),
               (''toc_cell'', JBool True),
               (''toc_position'', JObj []),
               (''toc_section_display'', JBool True),
               (''toc_window_display'', JBool True)])]),
       (''nbformat'', JNum 4),
       (''nbformat_minor'', JNum 4)]\<close>

definition scipy2025_index :: json where
  \<open>scipy2025_index =
     JObj [
       (''cells'', JArr [
           JObj [
             (''cell_type'', JStr ''markdown''),
             (''id'', JStr ''0''),
             (''metadata'', JObj []),
             (''source'', JArr [
                 JStr ''# SciPy 2025\<newline>'',
                 JStr ''\<newline>'',
                 JStr ''## Welcome to the Xarray SciPy 2025 Tutorial! \<newline>'',
                 JStr ''\<newline>'',
                 JStr ''<img src="https://images.squarespace-cdn.com/content/v1/6743676bb9f2e109f0ddba96/055e9b3f-965f-42c7-b496-2ba3870e216e/Logo_color-black.png?format=1500w" align="right" width="20%">\<newline>'',
                 JStr ''\<newline>'',
                 JStr ''**Hierarchical Data Analysis with Xarray DataTree & Zarr**\<newline>'',
                 JStr ''\<newline>'',
                 JStr (''July 8, 13:30'' @ [CHR 0xE2, CHR 0x80, CHR 0x93] @ ''17:30 (US/Pacific), Tacoma Convention Center Room 315\<newline>''),
                 JStr ''\<newline>'',
                 JStr ''This *4-hour* workshop will explore content from [the Xarray tutorial](https://tutorial.xarray.dev), which contains a comprehensive collection of hands-on tutorial Jupyter Notebooks. We will review a curated set of examples that will prepare you for increasingly complex real-world data analysis tasks!\<newline>'',
                 JStr ''\<newline>'',
                 JStr '':::{admonition} Learning Goals\<newline>'',
                 JStr (''- Understand Xarray'' @ [CHR 0xE2, CHR 0x80, CHR 0x99] @ ''s core data structures\<newline>''),
                 JStr ''- Understand how to map typical Xarray computations and workflows over hierarchical data\<newline>'',
                 JStr ''- Understand how common storage formats correspond to the DataTree model\<newline>'',
                 JStr ''- Open a public Zarr store in the cloud and manipulate the contents\<newline>'',
                 JStr '':::''])],
           JObj [
             (''cell_type'', JStr ''markdown''),
             (''id'', JStr ''1''),
             (''metadata'', JObj []),
             (''source'', JArr [
                 JStr ''## Schedule \<newline>'',
                 JStr ''\<newline>'',
                 JStr ''*Times in US/Pacific Timezone (Tacoma, WA)\<newline>'',
                 JStr ''\<newline>'',
                 JStr ''Use the links to navigate to the right notebooks.\<newline>'',
                 JStr ''\<newline>'',
                 JStr ''| Topic | Time | Notebook Links | \<newline>'',
                 JStr ''| :- | - | - | \<newline>'',
                 JStr ''| Introduction and Setup | 1:30 (10 min) | | \<newline>'',
                 JStr ''| The Xarray Data Model | 1:40 (50 min) | [Data structures](../../fundamentals/01_data_structures.md) | \<newline>'',
                 JStr ''| *10 minute Break*  \<newline>'',
                 JStr ''| Computational Patterns | 2:30 (50 min) |  [Computational Patterns](../../intermediate/computation/01-high-level-computation-patterns.ipynb) <br> [Hierarchical computation](../../intermediate/computation/hierarchical_computation.ipynb) |  \<newline>'',
                 JStr ''| *10 minute Break*  | \<newline>'',
                 JStr ''| Zarr & the cloud | 4:30 (50 min)  | [Intro to Zarr](../../intermediate/intro-to-zarr.ipynb) <br> [CMIP6 on the cloud](../../intermediate/remote_data/cmip6-cloud.ipynb) <br> |\<newline>'',
                 JStr ''| *10 minute Break*  | \<newline>'',
                 JStr ''| Other storage formats | 3:30 (50 min) | [IO basics](../../fundamentals/01.1_io.ipynb) <br> [Data models](../../intermediate/storage_formats.ipynb) <br> [Custom backends](../../advanced/backends/backends.md) <br> |  \<newline>'',
                 JStr ''| | End 5:30 | |''])],
           JObj [
             (''cell_type'', JStr ''markdown''),
             (''id'', JStr ''2''),
             (''metadata'', JObj []),
             (''source'', JArr [
                 JStr ''### Tutorial Setup\<newline>'',
                 JStr ''\<newline>'',
                 JStr ''Refer to the [Getting Started Section](../../overview/get-started.md) for various options to run tutorial notebooks either on your personal computer or on a free Cloud-hosted server.''])]]),
       (''metadata'', JObj [
           (''language_info'', JObj [
               (''codemirror_mode'', JObj [
                   (''name'', JStr ''ipython''),
                   (''version'', JNum 3)]),
               (''file_extension'', JStr ''.py''),
               (''mimetype'', JStr ''text/x-python''),
               (''name'', JStr ''python''),
               (''nbconvert_exporter'', JStr ''python''),
               (''pygments_lexer'', JStr ''ipython3'')])]),
       (''nbformat'', JNum 4),
       (''nbformat_minor'', JNum 5)]\<close>

subsection \<open>Kinds of cells\<close>

text \<open>
  The notebook format has three cell types, \<^verbatim>\<open>markdown\<close>, \<^verbatim>\<open>code\<close> and
  \<^verbatim>\<open>raw\<close>. A cell is prose or code when its type is one of the first two.
\<close>

definition prose_or_code :: "json \<Rightarrow> bool" where
  "prose_or_code c = (cell_type c = Some ''markdown'' \<or> cell_type c = Some ''code'')"

definition notebooks :: "json list" where
  "notebooks = [basic_computation, data_structures, scipy2025_index]"

section \<open>The code cells\<close>

text \<open>
  The source of a code cell is Python. Its statements are embedded as syntax trees
  with the node names of Python's own grammar, one list of statements per code cell, in
  the order of the notebook. Comments and the semicolon that ends a line are left out.
\<close>

datatype const = CInt int | CFloat string | CStr string | CBool bool | CNone

datatype binop = Add | Mult | Pow

datatype expr =
    Name string
  | Constant const
  | Attribute expr string
  | Subscript expr expr
  | Call expr "expr list" "keyword list"
  | BinOp expr binop expr
  | USub expr
  | ListE "expr list"
  | Tuple "expr list"
  | Slice "expr option" "expr option" "expr option"
  | Dict "expr list" "expr list"
and keyword = Keyword string expr

datatype stmt =
    Import string string
  | Assign expr expr
  | Expr expr
  | FunctionDef string "string list" "stmt list"
  | Return expr
  | Magic string string

subsection \<open>Running a notebook\<close>

text \<open>
  The notebooks compute with objects of libraries that are not part of the repository.
  A value is therefore the expression that produced it: a module, a builtin, a function
  of the notebook, a constant, or an operation applied to values. Calling a function
  that the notebook defines runs its body; every other call, attribute access,
  subscript and arithmetic operation stays as a term.
\<close>

datatype val =
    Module string
  | Builtin string
  | Closure "string list" "stmt list"
  | Const const
  | Attr val string
  | Index val val
  | App val "val list" "kwarg list"
  | Op val binop val
  | Neg val
  | ListV "val list"
  | TupleV "val list"
  | SliceV "val option" "val option" "val option"
  | DictV "val list" "val list"
and kwarg = KwArg string val

datatype error =
    NameError string
  | UnboundLocalError string
  | TypeError string
  | SyntaxError string
  | RecursionError

text \<open>What a statement did: it computed a value, or stored one into a container.\<close>

datatype event = Computed val | Stored val val val

type_synonym env = "(string \<times> val) list"

record state =
  globals :: env
  locals :: "(string list \<times> env) option"
  events :: "event list"

definition builtins :: "string list" where
  "builtins = [''type'', ''slice'', ''print'', ''len'', ''range'', ''dict'', ''list'',
     ''tuple'', ''str'', ''int'', ''float'', ''bool'', ''set'', ''abs'', ''min'', ''max'', ''sum'']"

text \<open>
  A name that a function body assigns is local to it in the whole body; any other name
  is looked up among the globals, then among the builtins.
\<close>

definition assigned_by :: "stmt \<Rightarrow> string list" where
  "assigned_by s =
     (case s of
        Assign t e \<Rightarrow> (case t of Name x \<Rightarrow> [x] | _ \<Rightarrow> [])
      | Import m a \<Rightarrow> [a]
      | FunctionDef f ps b \<Rightarrow> [f]
      | _ \<Rightarrow> [])"

definition assigned :: "stmt list \<Rightarrow> string list" where
  "assigned ss = concat (map assigned_by ss)"

definition lookup_global :: "state \<Rightarrow> string \<Rightarrow> error + val" where
  "lookup_global st x =
     (case map_of (globals st) x of
        Some v \<Rightarrow> Inr v
      | None \<Rightarrow> if x \<in> set builtins then Inr (Builtin x) else Inl (NameError x))"

definition lookup :: "state \<Rightarrow> string \<Rightarrow> error + val" where
  "lookup st x =
     (case locals st of
        None \<Rightarrow> lookup_global st x
      | Some (names, l) \<Rightarrow>
          if x \<in> set names
          then (case map_of l x of Some v \<Rightarrow> Inr v | None \<Rightarrow> Inl (UnboundLocalError x))
          else lookup_global st x)"

definition bind :: "string \<Rightarrow> val \<Rightarrow> state \<Rightarrow> state" where
  "bind x v st =
     (case locals st of
        None \<Rightarrow> st\<lparr>globals := AList.update x v (globals st)\<rparr>
      | Some (names, l) \<Rightarrow> st\<lparr>locals := Some (names, AList.update x v l)\<rparr>)"

definition record_event :: "event \<Rightarrow> state \<Rightarrow> state" where
  "record_event e st = st\<lparr>events := events st @ [e]\<rparr>"

text \<open>An error ends the evaluation; otherwise the next step goes on with the result.\<close>

definition and_then :: "error + 'a \<Rightarrow> ('a \<Rightarrow> error + 'b) \<Rightarrow> error + 'b" where
  "and_then m f = (case m of Inl err \<Rightarrow> Inl err | Inr x \<Rightarrow> f x)"

text \<open>The minus sign in front of a number is part of the number.\<close>

definition negate :: "val \<Rightarrow> val" where
  "negate v =
     (case v of
        Const k \<Rightarrow>
          (case k of
             CInt i \<Rightarrow> Const (CInt (- i))
           | CFloat s \<Rightarrow> Const (CFloat (CHR ''-'' # s))
           | _ \<Rightarrow> Neg v)
      | _ \<Rightarrow> Neg v)"

text \<open>
  Expressions are evaluated left to right. How a call is carried out is the parameter
  \<open>c\<close>: it is given the state, the callee, and the argument values.
\<close>

type_synonym caller =
  "state \<Rightarrow> val \<Rightarrow> val list \<Rightarrow> kwarg list \<Rightarrow> error + (val \<times> state)"

primrec eval :: "caller \<Rightarrow> expr \<Rightarrow> state \<Rightarrow> error + (val \<times> state)"
  and eval_list :: "caller \<Rightarrow> expr list \<Rightarrow> state \<Rightarrow> error + (val list \<times> state)"
  and eval_kw :: "caller \<Rightarrow> keyword \<Rightarrow> state \<Rightarrow> error + (kwarg \<times> state)"
  and eval_kws :: "caller \<Rightarrow> keyword list \<Rightarrow> state \<Rightarrow> error + (kwarg list \<times> state)"
  and eval_opt :: "caller \<Rightarrow> expr option \<Rightarrow> state \<Rightarrow> error + (val option \<times> state)"
where
  "eval c (Name x) st = and_then (lookup st x) (\<lambda>v. Inr (v, st))"
| "eval c (Constant k) st = Inr (Const k, st)"
| "eval c (Attribute e a) st = and_then (eval c e st) (\<lambda>(v, st1). Inr (Attr v a, st1))"
| "eval c (Subscript e i) st =
     and_then (eval c e st) (\<lambda>(v, st1).
     and_then (eval c i st1) (\<lambda>(k, st2). Inr (Index v k, st2)))"
| "eval c (Call f args kws) st =
     and_then (eval c f st) (\<lambda>(vf, st1).
     and_then (eval_list c args st1) (\<lambda>(vs, st2).
     and_then (eval_kws c kws st2) (\<lambda>(ks, st3). c st3 vf vs ks)))"
| "eval c (BinOp a opr b) st =
     and_then (eval c a st) (\<lambda>(x, st1).
     and_then (eval c b st1) (\<lambda>(y, st2). Inr (Op x opr y, st2)))"
| "eval c (USub a) st = and_then (eval c a st) (\<lambda>(x, st1). Inr (negate x, st1))"
| "eval c (ListE es) st = and_then (eval_list c es st) (\<lambda>(vs, st1). Inr (ListV vs, st1))"
| "eval c (Tuple es) st = and_then (eval_list c es st) (\<lambda>(vs, st1). Inr (TupleV vs, st1))"
| "eval c (Slice lo hi stp) st =
     and_then (eval_opt c lo st) (\<lambda>(l, st1).
     and_then (eval_opt c hi st1) (\<lambda>(h, st2).
     and_then (eval_opt c stp st2) (\<lambda>(s, st3). Inr (SliceV l h s, st3))))"
| "eval c (Dict ks vs) st =
     and_then (eval_list c ks st) (\<lambda>(kvs, st1).
     and_then (eval_list c vs st1) (\<lambda>(vvs, st2). Inr (DictV kvs vvs, st2)))"
| "eval_list c [] st = Inr ([], st)"
| "eval_list c (e # es) st =
     and_then (eval c e st) (\<lambda>(v, st1).
     and_then (eval_list c es st1) (\<lambda>(vs, st2). Inr (v # vs, st2)))"
| "eval_kw c (Keyword k e) st = and_then (eval c e st) (\<lambda>(v, st1). Inr (KwArg k v, st1))"
| "eval_kws c [] st = Inr ([], st)"
| "eval_kws c (kw # kws) st =
     and_then (eval_kw c kw st) (\<lambda>(v, st1).
     and_then (eval_kws c kws st1) (\<lambda>(vs, st2). Inr (v # vs, st2)))"
| "eval_opt c None st = Inr (None, st)"
| "eval_opt c (Some e) st = and_then (eval c e st) (\<lambda>(v, st1). Inr (Some v, st1))"

text \<open>
  A statement returns a value when it is a \<^verbatim>\<open>return\<close>; a block stops there.
  A subscript assignment evaluates its right-hand side first.
\<close>

definition exec :: "caller \<Rightarrow> stmt \<Rightarrow> state \<Rightarrow> error + (val option \<times> state)" where
  "exec c s st =
     (case s of
        Import m a \<Rightarrow> Inr (None, bind a (Module m) st)
      | Assign t e \<Rightarrow>
          (case t of
             Name x \<Rightarrow>
               and_then (eval c e st) (\<lambda>(v, st1).
                 Inr (None, bind x v (record_event (Computed v) st1)))
           | Subscript b i \<Rightarrow>
               and_then (eval c e st) (\<lambda>(v, st1).
               and_then (eval c b st1) (\<lambda>(b1, st2).
               and_then (eval c i st2) (\<lambda>(k, st3).
                 Inr (None, record_event (Stored b1 k v) st3))))
           | _ \<Rightarrow> Inl (SyntaxError ''assignment target''))
      | Expr e \<Rightarrow>
          and_then (eval c e st) (\<lambda>(v, st1). Inr (None, record_event (Computed v) st1))
      | FunctionDef f ps body \<Rightarrow> Inr (None, bind f (Closure ps body) st)
      | Return e \<Rightarrow>
          (case locals st of
             None \<Rightarrow> Inl (SyntaxError ''return outside function'')
           | Some l \<Rightarrow> and_then (eval c e st) (\<lambda>(v, st1). Inr (Some v, st1)))
      | Magic m a \<Rightarrow> Inr (None, st))"

primrec exec_block :: "caller \<Rightarrow> stmt list \<Rightarrow> state \<Rightarrow> error + (val option \<times> state)" where
  "exec_block c [] st = Inr (None, st)"
| "exec_block c (s # ss) st =
     and_then (exec c s st) (\<lambda>(r, st1).
       case r of Some v \<Rightarrow> Inr (Some v, st1) | None \<Rightarrow> exec_block c ss st1)"

text \<open>
  A call of a function of the notebook runs its body in a new local scope, with the
  parameters bound to the arguments given by position, and restores the caller's scope
  afterwards; a function that ends without \<^verbatim>\<open>return\<close> gives \<^verbatim>\<open>None\<close>. The
  number bounds the depth of such calls, as the interpreter's recursion limit does.
  Any other callee is an object of a library or a builtin: the call stays a term.
\<close>

definition enter :: "state \<Rightarrow> string list \<Rightarrow> stmt list \<Rightarrow> val list \<Rightarrow> state" where
  "enter st ps body vs = st\<lparr>locals := Some (ps @ assigned body, zip ps vs)\<rparr>"

definition leave :: "state \<Rightarrow> val option \<times> state \<Rightarrow> val \<times> state" where
  "leave st r =
     ((case fst r of Some v \<Rightarrow> v | None \<Rightarrow> Const CNone), (snd r)\<lparr>locals := locals st\<rparr>)"

primrec call :: "nat \<Rightarrow> caller" where
  "call 0 = (\<lambda>st f vs ks.
     case f of
       Closure ps body \<Rightarrow> Inl RecursionError
     | _ \<Rightarrow> Inr (App f vs ks, st))"
| "call (Suc n) = (\<lambda>st f vs ks.
     case f of
       Closure ps body \<Rightarrow>
         if ks = [] \<and> length vs = length ps
         then and_then (exec_block (call n) body (enter st ps body vs)) (\<lambda>r. Inr (leave st r))
         else Inl (TypeError ''arguments'')
     | _ \<Rightarrow> Inr (App f vs ks, st))"

definition initial :: state where
  "initial = \<lparr> globals = [], locals = None, events = [] \<rparr>"

text \<open>Running a notebook runs its code cells in order, in one namespace.\<close>

definition run_cells :: "nat \<Rightarrow> stmt list list \<Rightarrow> error + state" where
  "run_cells limit cs =
     and_then (exec_block (call limit) (concat cs) initial) (\<lambda>(r, st). Inr st)"

subsection \<open>The code of the three notebooks\<close>

text \<open>
  Each code cell with its position in the notebook's list of cells. The third notebook
  has no code cell.
\<close>

definition basic_computation_code :: "(nat \<times> stmt list) list" where
  \<open>basic_computation_code =
   [(1, [Import ''numpy'' ''np'',
         Import ''xarray'' ''xr'',
         Import ''matplotlib.pyplot'' ''plt'',
         Expr (Call (Attribute (Name ''xr'') ''set_options'') []
                 [Keyword ''display_expand_data'' (Constant (CBool False))]),
         Magic ''config'' (''InlineBackend.figure_format=\'retina'' @ [CHR 0x27])]),
    (3, [Assign (Name ''ds'')
           (Call (Attribute (Attribute (Name ''xr'') ''tutorial'') ''load_dataset'')
              [Constant (CStr ''ersstv5'')] []),
         Expr (Name ''ds'')]),
    (5, [Expr (Call (Attribute
                 (Call (Attribute (Attribute (Name ''ds'') ''sst'') ''isel'') []
                    [Keyword ''time'' (Constant (CInt 0))])
                 ''plot'') []
                 [Keyword ''vmin'' (USub (Constant (CInt 2))),
                  Keyword ''vmax'' (Constant (CInt 30))])]),
    (7, [Assign (Name ''sst_kelvin'')
           (BinOp (Attribute (Name ''ds'') ''sst'') Add (Constant (CFloat ''273.15''))),
         Expr (Name ''sst_kelvin'')]),
    (9, [Assign (Name ''f'')
           (BinOp (Constant (CFloat ''0.5'')) Mult
              (Call (Attribute (Name ''np'') ''log'')
                 [BinOp (Name ''sst_kelvin'') Pow (Constant (CInt 2))] [])),
         Expr (Name ''f'')]),
    (11, [Expr (Call (Attribute (Name ''np'') ''nan_to_num'')
                  [Attribute (Name ''ds'') ''sst'']
                  [Keyword ''nan'' (Constant (CInt 0))])]),
    (13, [Expr (Call (Attribute (Name ''xr'') ''apply_ufunc'')
                  [Attribute (Name ''np'') ''nan_to_num'', Attribute (Name ''ds'') ''sst'']
                  [Keyword ''kwargs'' (Dict [Constant (CStr ''nan'')] [Constant (CInt 0)])])]),
    (16, [Assign (Name ''sst'') (Attribute (Name ''ds'') ''sst''),
          Expr (Call (Attribute (Name ''sst'') ''mean'') []
                  [Keyword ''axis'' (Constant (CInt 0))])]),
    (18, [Expr (Call (Attribute (Name ''sst'') ''mean'') []
                  [Keyword ''dim'' (Constant (CStr ''time''))])]),
    (20, [Expr (Call (Attribute (Name ''sst'') ''mean'')
                  [ListE [Constant (CStr ''lat''), Constant (CStr ''time'')]] [])]),
    (22, [Expr (Call (Attribute (Name ''sst'') ''mean'') [] [])])]\<close>

definition air_as_dictionary_body :: "stmt list" where
  \<open>air_as_dictionary_body =
   [Assign (Name ''ds'')
      (Call (Attribute (Attribute (Name ''xr'') ''tutorial'') ''open_dataset'')
         [Constant (CStr ''air_temperature'')] []),
    Return (Dict
      [Constant (CStr ''lat''), Constant (CStr ''lon''), Constant (CStr ''attrs''),
       Constant (CStr ''time''), Constant (CStr ''air-temp'')]
      [Attribute (Subscript (Name ''ds'') (Constant (CStr ''lat''))) ''values'',
       Attribute (Subscript (Name ''ds'') (Constant (CStr ''lon''))) ''values'',
       Attribute (Name ''ds'') ''attrs'',
       Attribute (Subscript (Name ''ds'') (Constant (CStr ''time''))) ''values'',
       Attribute (Subscript (Name ''ds'') (Constant (CStr ''air''))) ''values''])]\<close>

definition data_structures_code :: "(nat \<times> stmt list) list" where
  \<open>data_structures_code =
   [(1, [Import ''matplotlib.pyplot'' ''plt'',
         Import ''numpy'' ''np'',
         Import ''xarray'' ''xr'']),
    (3, [Assign (Name ''ds'')
           (Call (Attribute (Attribute (Name ''xr'') ''tutorial'') ''load_dataset'')
              [Constant (CStr ''air_temperature'')] []),
         Expr (Name ''ds'')]),
    (5, [Expr (Call (Attribute
                 (Call (Attribute (Attribute (Name ''ds'') ''air'') ''mean'') [] [Keyword ''dim'' (Constant (CStr ''time''))])
                 ''plot'') []
                 [Keyword ''x'' (Constant (CStr ''lon''))])]),
    (7, [Expr (Subscript (Name ''ds'') (Constant (CStr ''air'')))]),
    (9, [Expr (Attribute (Name ''ds'') ''air'')]),
    (12, [Assign (Name ''da'') (Attribute (Name ''ds'') ''air''),
          Expr (Attribute (Name ''da'') ''name'')]),
    (14, [Expr (Attribute (Name ''da'') ''dims'')]),
    (16, [Expr (Attribute (Name ''da'') ''coords'')]),
    (18, [Expr (Attribute (Name ''da'') ''lon'')]),
    (19, [Expr (Subscript (Attribute (Name ''da'') ''coords'') (Constant (CStr ''lon'')))]),
    (22, [Expr (Attribute (Name ''da'') ''attrs'')]),
    (23, [Assign (Subscript (Attribute (Name ''da'') ''attrs'') (Constant (CStr ''who_is_awesome'')))
            (Constant (CStr ''xarray'')),
          Expr (Attribute (Name ''da'') ''attrs'')]),
    (24, [Expr (Name ''da'')]),
    (26, [Expr (Attribute (Name ''da'') ''data'')]),
    (27, [Expr (Call (Name ''type'') [Attribute (Name ''da'') ''data''] [])]),
    (30, [FunctionDef ''air_as_dictionary'' [] air_as_dictionary_body,
          Assign (Name ''data'') (Call (Name ''air_as_dictionary'') [] [])]),
    (32, [Assign (Name ''lat'') (Attribute (Attribute (Attribute (Name ''ds'') ''air'') ''lat'') ''data''),
          Assign (Name ''lon'') (Attribute (Attribute (Attribute (Name ''ds'') ''air'') ''lon'') ''data''),
          Assign (Name ''temp'') (Attribute (Attribute (Name ''ds'') ''air'') ''data'')]),
    (33, [Expr (Call (Attribute (Name ''plt'') ''figure'') [] []),
          Expr (Call (Attribute (Name ''plt'') ''pcolormesh'')
                  [Name ''lon'', Name ''lat'',
                   Subscript (Name ''temp'')
                     (Tuple [Constant (CInt 0), Slice None None None, Slice None None None])]
                  [])]),
    (34, [Expr (Call (Attribute (Name ''temp'') ''mean'') []
                  [Keyword ''axis'' (Constant (CInt 1))])]),
    (36, [Expr (Call (Attribute
                  (Call (Attribute (Attribute (Name ''ds'') ''air'') ''isel'') [] [Keyword ''time'' (Constant (CInt 0))])
                  ''plot'') []
                  [Keyword ''x'' (Constant (CStr ''lon''))])]),
    (38, [Expr (Call (Attribute
                  (Call (Attribute (Attribute (Name ''ds'') ''air'') ''mean'') [] [Keyword ''dim'' (Constant (CStr ''time''))])
                  ''plot'') []
                  [Keyword ''x'' (Constant (CStr ''lon''))])]),
    (41, [Expr (Name ''ds'')]),
    (42, [Expr (Call (Attribute (Name ''ds'') ''sel'') []
                  [Keyword ''time'' (Constant (CStr ''2013-05''))])]),
    (43, [Expr (Call (Attribute (Name ''ds'') ''sel'') []
                  [Keyword ''time''
                     (Call (Name ''slice'')
                        [Constant (CStr ''2013-05''), Constant (CStr ''2013-07'')] [])])]),
    (44, [Expr (Call (Attribute (Name ''ds'') ''sel'') []
                  [Keyword ''time'' (Constant (CStr ''2013''))])]),
    (45, [Expr (Call (Attribute (Name ''ds'') ''sel'') []
                  [Keyword ''lon'' (Constant (CFloat ''240.2'')),
                   Keyword ''method'' (Constant (CStr ''nearest''))])]),
    (46, [Expr (Call (Attribute (Name ''ds'') ''sel'') []
                  [Keyword ''lon'' (ListE [Constant (CFloat ''240.125''), Constant (CInt 234)]),
                   Keyword ''lat'' (ListE [Constant (CFloat ''40.3''), Constant (CFloat ''50.3'')]),
                   Keyword ''method'' (Constant (CStr ''nearest''))])]),
    (48, [Expr (Subscript (Attribute (Attribute (Name ''ds'') ''air'') ''data'')
                  (Tuple [Constant (CInt 0), Constant (CInt 2), Constant (CInt 3)]))]),
    (49, [Expr (Call (Attribute (Attribute (Name ''ds'') ''air'') ''isel'') []
                  [Keyword ''time'' (Constant (CInt 0)),
                   Keyword ''lat'' (Constant (CInt 2)),
                   Keyword ''lon'' (Constant (CInt 3))])]),
    (50, [Expr (Call (Attribute (Attribute (Name ''ds'') ''air'') ''isel'') []
                  [Keyword ''lat'' (Call (Name ''slice'') [Constant (CInt 10)] [])])]),
    (53, [Assign (Name ''tree'')
            (Call (Attribute (Attribute (Name ''xr'') ''tutorial'') ''open_datatree'')
               [Constant (CStr ''precipitation.nc4'')] []),
          Assign (Name ''reanalysis'')
            (Call (Attribute (Name ''xr'') ''Dataset'')
               [Subscript (Name ''tree'') (Constant (CStr ''observed''))] []),
          Assign (Name ''observed'')
            (Call (Attribute (Name ''xr'') ''Dataset'')
               [Subscript (Name ''tree'') (Constant (CStr ''reanalysis''))] [])]),
    (54, []),
    (56, []),
    (57, [])]\<close>

definition scipy2025_index_code :: "(nat \<times> stmt list) list" where
  "scipy2025_index_code = []"

text \<open>The positions of the code cells of a notebook document.\<close>

definition code_positions :: "json \<Rightarrow> nat list" where
  "code_positions nb =
     map fst (filter (\<lambda>(i, c). cell_type c = Some ''code'') (zip [0..<length (cells nb)] (cells nb)))"

subsection \<open>Where values come from\<close>

text \<open>
  A value goes back to a library when it is a module, or an attribute, an element or the
  result of a call of a value that goes back to a library, or the result of arithmetic
  with such a value. This is about where a value came from, not about its type.
\<close>

primrec of_library :: "val \<Rightarrow> bool" where
  "of_library (Module m) = True"
| "of_library (Builtin b) = False"
| "of_library (Closure ps body) = False"
| "of_library (Const k) = False"
| "of_library (Attr v a) = of_library v"
| "of_library (Index v k) = of_library v"
| "of_library (App f vs ks) = of_library f"
| "of_library (Op a opr b) = (of_library a \<or> of_library b)"
| "of_library (Neg a) = of_library a"
| "of_library (ListV vs) = False"
| "of_library (TupleV vs) = False"
| "of_library (SliceV l h s) = False"
| "of_library (DictV ks vs) = False"

text \<open>
  The module that a value of a library goes back to; for arithmetic, the module of the
  left operand, or else of the right one.
\<close>

primrec root_module :: "val \<Rightarrow> string option" where
  "root_module (Module m) = Some m"
| "root_module (Builtin b) = None"
| "root_module (Closure ps body) = None"
| "root_module (Const k) = None"
| "root_module (Attr v a) = root_module v"
| "root_module (Index v k) = root_module v"
| "root_module (App f vs ks) = root_module f"
| "root_module (Op a opr b) =
     (case root_module a of Some m \<Rightarrow> Some m | None \<Rightarrow> root_module b)"
| "root_module (Neg a) = root_module a"
| "root_module (ListV vs) = None"
| "root_module (TupleV vs) = None"
| "root_module (SliceV l h s) = None"
| "root_module (DictV ks vs) = None"

text \<open>The array libraries that the notebooks import.\<close>

definition array_libraries :: "string list" where
  "array_libraries = [''xarray'', ''numpy'']"

definition by_array_library :: "val \<Rightarrow> bool" where
  "by_array_library v =
     (case root_module v of Some m \<Rightarrow> m \<in> set array_libraries | None \<Rightarrow> False)"

text \<open>
  The operations inside a value: every call, arithmetic operation and subscript,
  outermost first. Attribute access and the construction of lists, tuples, slices and
  dictionaries are not counted.
\<close>

primrec operations :: "val \<Rightarrow> val list"
  and operations_list :: "val list \<Rightarrow> val list"
  and operations_kw :: "kwarg \<Rightarrow> val list"
  and operations_kws :: "kwarg list \<Rightarrow> val list"
  and operations_opt :: "val option \<Rightarrow> val list"
where
  "operations (Module m) = []"
| "operations (Builtin b) = []"
| "operations (Closure ps body) = []"
| "operations (Const k) = []"
| "operations (Attr v a) = operations v"
| "operations (Index v k) = Index v k # operations v @ operations k"
| "operations (App f vs ks) = App f vs ks # operations f @ operations_list vs @ operations_kws ks"
| "operations (Op a opr b) = Op a opr b # operations a @ operations b"
| "operations (Neg a) = Neg a # operations a"
| "operations (ListV vs) = operations_list vs"
| "operations (TupleV vs) = operations_list vs"
| "operations (SliceV l h s) = operations_opt l @ operations_opt h @ operations_opt s"
| "operations (DictV ks vs) = operations_list ks @ operations_list vs"
| "operations_list [] = []"
| "operations_list (v # vs) = operations v @ operations_list vs"
| "operations_kw (KwArg k v) = operations v"
| "operations_kws [] = []"
| "operations_kws (k # ks) = operations_kw k @ operations_kws ks"
| "operations_opt None = []"
| "operations_opt (Some v) = operations v"

definition event_values :: "event \<Rightarrow> val list" where
  "event_values e = (case e of Computed v \<Rightarrow> [v] | Stored c k v \<Rightarrow> [c, k, v])"

definition all_operations :: "state \<Rightarrow> val list" where
  "all_operations st = concat (map (operations_list \<circ> event_values) (events st))"

text \<open>
  A source is a call into a library that takes no computed value: none of its parts is
  itself an operation.
\<close>

definition is_source :: "val \<Rightarrow> bool" where
  "is_source v =
     (case v of
        App f vs ks \<Rightarrow>
          of_library f \<and> operations f = [] \<and> operations_list vs = [] \<and> operations_kws ks = []
      | _ \<Rightarrow> False)"

definition sources :: "state \<Rightarrow> val list" where
  "sources st = remdups (filter is_source (all_operations st))"

text \<open>The tutorial loader of the array library, called with the name of a dataset.\<close>

definition loader :: "string \<Rightarrow> string \<Rightarrow> val" where
  "loader f dataset =
     App (Attr (Attr (Module ''xarray'') ''tutorial'') f) [Const (CStr dataset)] []"

definition is_loader_call :: "val \<Rightarrow> bool" where
  "is_loader_call v =
     (case v of
        App f vs ks \<Rightarrow>
          (case vs of
             [Const (CStr dataset)] \<Rightarrow>
               ks = [] \<and> f \<in> set (map (Attr (Attr (Module ''xarray'') ''tutorial''))
                                   [''load_dataset'', ''open_dataset'', ''open_datatree''])
           | _ \<Rightarrow> False)
      | _ \<Rightarrow> False)"

definition stores :: "state \<Rightarrow> event list" where
  "stores st = filter (\<lambda>e. case e of Stored c k v \<Rightarrow> True | Computed v \<Rightarrow> False) (events st)"

text \<open>The functions that a notebook has defined, by name.\<close>

definition defined_functions :: "state \<Rightarrow> (string \<times> val) list" where
  "defined_functions st =
     filter (\<lambda>(x, v). case v of Closure ps body \<Rightarrow> True | _ \<Rightarrow> False) (globals st)"

section \<open>Properties of the workflow\<close>

lemmas step_defs =
  checkout_step_def cache_step_def setup_pixi_step_def build_step_def
  dump_logs_step_def upload_step_def

lemma not_closed_on_closed:
  "action ev = ''closed'' \<Longrightarrow> \<not> truthy (eval_expr ev not_closed)"
  by (simp add: not_closed_def truthy_def val_eq_def val_text_def ctx_get_def)

lemma guard_skips:
  "action ev = ''closed'' \<Longrightarrow> if_cond s = Some not_closed \<Longrightarrow> \<not> guard_holds ev s"
  by (simp add: guard_holds_def not_closed_on_closed)

text \<open>
  C8. In the job \<^verbatim>\<open>preview\<close> the only step that is not guarded by
  \<^verbatim>\<open>github.event.action != 'closed'\<close> is the step that uses the setup-pixi action,
  which has no condition at all. So for an event whose action is \<^verbatim>\<open>closed\<close> the
  checkout, cache, build, log-dump and upload steps are skipped, and the setup-pixi step
  runs (and succeeds or fails, whatever it does).
\<close>

theorem closed_runs_only_setup_pixi:
  assumes "action ev = ''closed''"
  shows "filter (\<lambda>s. if_cond s \<noteq> Some not_closed) (steps preview) = [setup_pixi_step]
       \<and> if_cond setup_pixi_step = None
       \<and> run_job ok ev preview =
           [Skipped, Skipped, (if ok setup_pixi_step then Succeeded else Failed),
            Skipped, Skipped, Skipped]"
proof -
  have skipped: "\<not> guard_holds ev checkout_step" "\<not> guard_holds ev cache_step"
    "\<not> guard_holds ev build_step" "\<not> guard_holds ev dump_logs_step"
    "\<not> guard_holds ev upload_step"
    using assms by (simp_all add: guard_skips step_defs)
  have runs: "guard_holds ev setup_pixi_step"
    by (simp add: guard_holds_def setup_pixi_step_def)
  have "run_job ok ev preview =
      [Skipped, Skipped, (if ok setup_pixi_step then Succeeded else Failed),
       Skipped, Skipped, Skipped]"
    by (simp add: run_job_def preview_def skipped runs)
  moreover have "filter (\<lambda>s. if_cond s \<noteq> Some not_closed) (steps preview) = [setup_pixi_step]"
    by (simp add: preview_def step_defs)
  moreover have "if_cond setup_pixi_step = None"
    by (simp add: setup_pixi_step_def)
  ultimately show ?thesis by simp
qed

theorem closed_runs_only_setup_pixi_witness:
  "action closed_event = ''closed''
   \<and> run_job (\<lambda>s. True) closed_event preview =
       [Skipped, Skipped, Succeeded, Skipped, Skipped, Skipped]"
  using closed_runs_only_setup_pixi [of closed_event "\<lambda>s. True"]
  by (simp add: closed_event_def)

lemma glob_starstar_any: "glob_match [GStarStar] s"
  by (induction s) simp_all

lemma glob_chars:
  "glob_match (map GChar l @ p) s = (\<exists>t. s = l @ t \<and> glob_match p t)"
proof (induction l arbitrary: s)
  case Nil
  then show ?case by simp
next
  case (Cons c l)
  then show ?case by (cases s) auto
qed

lemma devcontainer_pattern:
  "glob_parse ''.devcontainer/**'' = map GChar ''.devcontainer/'' @ [GStarStar]"
  by simp

lemma devcontainer_glob:
  "glob_match (glob_parse ''.devcontainer/**'') p = prefix ''.devcontainer/'' p"
  unfolding devcontainer_pattern glob_chars
  by (auto simp: prefix_def glob_starstar_any)

lemma devcontainer_ignored:
  "path_ignored [''.devcontainer/**''] = prefix ''.devcontainer/''"
  by (rule ext)
    (simp only: path_ignored_def list_ex_Nil_iff list_ex_Cons_iff devcontainer_glob simp_thms)

text \<open>
  C9. The workflow is triggered only by a \<^verbatim>\<open>pull_request\<close> event whose action is
  \<^verbatim>\<open>opened\<close>, \<^verbatim>\<open>synchronize\<close>, \<^verbatim>\<open>reopened\<close> or \<^verbatim>\<open>closed\<close>, and
  only when not every changed path lies under \<^verbatim>\<open>.devcontainer/\<close>: when all of them
  do, it is not triggered.
\<close>

theorem triggers_only_if:
  assumes "triggers pull_request_build ev"
  shows "event_name ev = ''pull_request''
       \<and> action ev \<in> {''opened'', ''synchronize'', ''reopened'', ''closed''}
       \<and> \<not> list_all (prefix ''.devcontainer/'') (changed_paths ev)"
  using assms
  by (simp add: triggers_def pull_request_build_def devcontainer_ignored)

theorem triggers_only_if_witness:
  "triggers pull_request_build opened_event
   \<and> event_name opened_event = ''pull_request''
   \<and> action opened_event \<in> {''opened'', ''synchronize'', ''reopened'', ''closed''}
   \<and> \<not> list_all (prefix ''.devcontainer/'') (changed_paths opened_event)"
proof -
  have "triggers pull_request_build opened_event"
    by (simp add: triggers_def pull_request_build_def devcontainer_ignored opened_event_def)
  then show ?thesis
    using triggers_only_if [of opened_event] by simp
qed

text \<open>
  C5, as stated, fails: the job has steps besides the build, the cache and the upload
  step, and it has control flow of its own. The log-dump step is in the job, is none of
  the three, is guarded by a condition, and its script is a shell conditional.
\<close>

theorem dump_logs_is_a_fourth_kind:
  "dump_logs_step \<in> set (steps preview)
   \<and> \<not> is_generator_invocation dump_logs_step
   \<and> \<not> is_cache_step dump_logs_step
   \<and> \<not> is_upload_step dump_logs_step
   \<and> if_cond dump_logs_step = Some not_closed
   \<and> script_branches dump_logs_step"
  by (simp add: preview_def dump_logs_step_def is_generator_invocation_def is_cache_step_def
      is_upload_step_def script_branches_def)

text \<open>
  C5, amended. The workflow defines exactly one job, \<^verbatim>\<open>preview\<close>, of six steps.
  One of them is the build: a single direct invocation of the documentation generator.
  One is a cache step over the fixed directory \<^verbatim>\<open>_build\<close> with a fixed key, one
  uploads \<^verbatim>\<open>_build/html\<close>. The other three are the checkout, the setup-pixi action
  and the log dump. The control flow of the job is the condition
  \<^verbatim>\<open>github.event.action != 'closed'\<close> on five of the six steps and the one shell
  conditional of the log dump; no step has a loop or a retry.
\<close>

theorem preview_job_shape:
  "map fst (jobs pull_request_build) = [''preview'']
   \<and> map_of (jobs pull_request_build) ''preview'' = Some preview
   \<and> length (steps preview) = 6
   \<and> filter is_generator_invocation (steps preview) = [build_step]
   \<and> run build_step =
       Some [Simple [''jupyter-book'', ''build'', ''./'', ''--warningiserror'', ''--keep-going'']]
   \<and> filter is_cache_step (steps preview) = [cache_step]
   \<and> with_params cache_step = [(''path'', ''_build''), (''key'', ''jupyterbook-20250701'')]
   \<and> filter is_upload_step (steps preview) = [upload_step]
   \<and> map_of (with_params upload_step) ''path'' = Some ''_build/html''
   \<and> filter (\<lambda>s. \<not> (is_generator_invocation s \<or> is_cache_step s \<or> is_upload_step s))
         (steps preview) = [checkout_step, setup_pixi_step, dump_logs_step]
   \<and> map if_cond (steps preview) =
       [Some not_closed, Some not_closed, None, Some not_closed, Some not_closed, Some not_closed]
   \<and> filter script_branches (steps preview) = [dump_logs_step]"
  by (simp add: pull_request_build_def preview_def step_defs is_generator_invocation_def
      is_cache_step_def is_upload_step_def script_branches_def)

text \<open>
  The concurrency group of a run is the name of the workflow, a hyphen and the ref of the
  event, and the workflow asks for runs in progress in the same group to be cancelled.
\<close>

theorem concurrency_group_key:
  "concurrency_group pull_request_build ev = workflow_name ev @ ''-'' @ ref ev
   \<and> cancel_in_progress (wf_concurrency pull_request_build)"
  by (simp add: concurrency_group_def pull_request_build_def ctx_get_def val_text_def)

section \<open>Properties of the notebooks\<close>

lemmas json_simps = prose_or_code_def field_def cells_def cell_type_def

lemma basic_computation_cells:
  "field ''nbformat'' basic_computation = Some (JNum 4)
   \<and> length (cells basic_computation) = 25
   \<and> list_all prose_or_code (cells basic_computation)"
  by (simp add: basic_computation_def json_simps)

lemma data_structures_cells:
  "field ''nbformat'' data_structures = Some (JNum 4)
   \<and> length (cells data_structures) = 58
   \<and> list_all prose_or_code (cells data_structures)"
  by (simp add: data_structures_def json_simps)

lemma scipy2025_index_cells:
  "field ''nbformat'' scipy2025_index = Some (JNum 4)
   \<and> length (cells scipy2025_index) = 3
   \<and> list_all prose_or_code (cells scipy2025_index)"
  by (simp add: scipy2025_index_def json_simps)

text \<open>
  The three notebook files that are embedded here declare version 4 of the notebook
  format, and each of their 25, 58 and 3 cells is a markdown cell or a code cell. This
  says nothing of the notebooks that these three link to, and it is not a check of the
  documents against the whole format.
\<close>

theorem embedded_notebooks_are_prose_and_code:
  "list_all (\<lambda>nb. field ''nbformat'' nb = Some (JNum 4)) notebooks
   \<and> map (length \<circ> cells) notebooks = [25, 58, 3]
   \<and> list_all (\<lambda>nb. list_all prose_or_code (cells nb)) notebooks"
  using basic_computation_cells data_structures_cells scipy2025_index_cells
  by (simp add: notebooks_def)

text \<open>The syntax trees are those of the code cells: they stand at the same positions.\<close>

lemma code_cells_positions:
  "code_positions basic_computation = map fst basic_computation_code"
  "code_positions data_structures = map fst data_structures_code"
  "code_positions scipy2025_index = map fst scipy2025_index_code"
  by (simp_all add: code_positions_def cells_def field_def cell_type_def upt_rec
      basic_computation_def data_structures_def scipy2025_index_def
      basic_computation_code_def data_structures_code_def scipy2025_index_code_def)

section \<open>Properties of the code cells\<close>

lemma and_then_Inr: "and_then (Inr x) f = f x"
  by (simp add: and_then_def)

lemma and_then_Inl: "and_then (Inl e) f = Inl e"
  by (simp add: and_then_def)

lemma and_then_weak_cong: "m = m' \<Longrightarrow> and_then m f = and_then m' f"
  by simp

text \<open>A call of anything but a function of the notebook stays a term, at any depth.\<close>

lemma call_attr:
  "call n st (Attr v a) vs ks = Inr (App (Attr v a) vs ks, st)"
  by (cases n) simp_all

lemma call_builtin:
  "call n st (Builtin b) vs ks = Inr (App (Builtin b) vs ks, st)"
  by (cases n) simp_all

lemma call_closure:
  "call (Suc n) st (Closure ps body) vs ks =
     (if ks = [] \<and> length vs = length ps
      then and_then (exec_block (call n) body (enter st ps body vs)) (\<lambda>r. Inr (leave st r))
      else Inl (TypeError ''arguments''))"
  by simp

lemmas run_simps =
  run_cells_def exec_def and_then_Inr and_then_Inl lookup_def lookup_global_def bind_def
  record_event_def enter_def leave_def initial_def assigned_def assigned_by_def builtins_def
  negate_def call_attr call_builtin call_closure

lemmas trace_simps =
  all_operations_def sources_def stores_def defined_functions_def event_values_def
  is_source_def loader_def by_array_library_def array_libraries_def

text \<open>
  The first notebook, run from its first code cell to its last, with any recursion limit
  of at least one: its sources, its stores, the operations that do not go back to an
  array library, and the functions it defines.
\<close>

lemma basic_computation_run:
  "\<exists>st. run_cells (Suc n) (map snd basic_computation_code) = Inr st
     \<and> sources st =
         [App (Attr (Module ''xarray'') ''set_options'') []
            [KwArg ''display_expand_data'' (Const (CBool False))],
          loader ''load_dataset'' ''ersstv5'']
     \<and> stores st = []
     \<and> filter (\<lambda>v. \<not> by_array_library v) (all_operations st) = []
     \<and> defined_functions st = []"
  by (simp add: run_simps trace_simps basic_computation_code_def
      del: call.simps cong: and_then_weak_cong)

text \<open>The same for the second notebook, with the variables of its last exercise.\<close>

lemma data_structures_run:
  "\<exists>st. run_cells (Suc n) (map snd data_structures_code) = Inr st
     \<and> map_of (globals st) ''tree'' = Some (loader ''open_datatree'' ''precipitation.nc4'')
     \<and> map_of (globals st) ''reanalysis'' =
         Some (App (Attr (Module ''xarray'') ''Dataset'')
                 [Index (loader ''open_datatree'' ''precipitation.nc4'') (Const (CStr ''observed''))] [])
     \<and> map_of (globals st) ''observed'' =
         Some (App (Attr (Module ''xarray'') ''Dataset'')
                 [Index (loader ''open_datatree'' ''precipitation.nc4'') (Const (CStr ''reanalysis''))] [])
     \<and> map_of (globals st) ''data'' =
         Some (DictV
           [Const (CStr ''lat''), Const (CStr ''lon''), Const (CStr ''attrs''),
            Const (CStr ''time''), Const (CStr ''air-temp'')]
           [Attr (Index (loader ''open_dataset'' ''air_temperature'') (Const (CStr ''lat''))) ''values'',
            Attr (Index (loader ''open_dataset'' ''air_temperature'') (Const (CStr ''lon''))) ''values'',
            Attr (loader ''open_dataset'' ''air_temperature'') ''attrs'',
            Attr (Index (loader ''open_dataset'' ''air_temperature'') (Const (CStr ''time''))) ''values'',
            Attr (Index (loader ''open_dataset'' ''air_temperature'') (Const (CStr ''air''))) ''values''])
     \<and> sources st =
         [loader ''open_dataset'' ''air_temperature'',
          App (Attr (Module ''matplotlib.pyplot'') ''figure'') [] [],
          loader ''load_dataset'' ''air_temperature'',
          loader ''open_datatree'' ''precipitation.nc4'']
     \<and> stores st =
         [Stored (Attr (Attr (loader ''load_dataset'' ''air_temperature'') ''air'') ''attrs'')
            (Const (CStr ''who_is_awesome'')) (Const (CStr ''xarray''))]
     \<and> filter (\<lambda>v. \<not> by_array_library v) (all_operations st) =
         [App (Builtin ''type'')
            [Attr (Attr (loader ''load_dataset'' ''air_temperature'') ''air'') ''data''] [],
          App (Attr (Module ''matplotlib.pyplot'') ''figure'') [] [],
          App (Attr (Module ''matplotlib.pyplot'') ''pcolormesh'')
            [Attr (Attr (Attr (loader ''load_dataset'' ''air_temperature'') ''air'') ''lon'') ''data'',
             Attr (Attr (Attr (loader ''load_dataset'' ''air_temperature'') ''air'') ''lat'') ''data'',
             Index (Attr (Attr (loader ''load_dataset'' ''air_temperature'') ''air'') ''data'')
               (TupleV [Const (CInt 0), SliceV None None None, SliceV None None None])] [],
          App (Builtin ''slice'') [Const (CStr ''2013-05''), Const (CStr ''2013-07'')] [],
          App (Builtin ''slice'') [Const (CInt 10)] []]
     \<and> defined_functions st = [(''air_as_dictionary'', Closure [] air_as_dictionary_body)]"
  by (simp add: run_simps trace_simps data_structures_code_def air_as_dictionary_body_def
      del: call.simps cong: and_then_weak_cong)

lemma scipy2025_index_run:
  "\<exists>st. run_cells n (map snd scipy2025_index_code) = Inr st \<and> events st = []"
  by (simp add: run_simps scipy2025_index_code_def)

text \<open>
  C10. The last exercise of the data-structures notebook is its last code cell that is
  not empty, the cell at position 53:
  \<^verbatim>\<open>tree = xr.tutorial.open_datatree('precipitation.nc4')\<close>,
  \<^verbatim>\<open>reanalysis = xr.Dataset(tree['observed'])\<close>,
  \<^verbatim>\<open>observed = xr.Dataset(tree['reanalysis'])\<close>. When the notebook has run, the
  variable \<^verbatim>\<open>reanalysis\<close> holds the dataset made from the node \<^verbatim>\<open>observed\<close> of
  the tree, and the variable \<^verbatim>\<open>observed\<close> the dataset made from the node
  \<^verbatim>\<open>reanalysis\<close>: the two names are swapped.
\<close>

theorem exercise_names_are_swapped:
  \<open>source_lines (cells data_structures ! 53) =
     [''tree = xr.tutorial.open_datatree(\'precipitation.nc4\')\<newline>'',
      ''reanalysis = xr.Dataset(tree[\'observed\'])\<newline>'',
      ''observed = xr.Dataset(tree[\'reanalysis\'])'']
   \<and> last (filter (\<lambda>c. snd c \<noteq> []) data_structures_code) =
     (53, [Assign (Name ''tree'')
             (Call (Attribute (Attribute (Name ''xr'') ''tutorial'') ''open_datatree'')
                [Constant (CStr ''precipitation.nc4'')] []),
           Assign (Name ''reanalysis'')
             (Call (Attribute (Name ''xr'') ''Dataset'')
                [Subscript (Name ''tree'') (Constant (CStr ''observed''))] []),
           Assign (Name ''observed'')
             (Call (Attribute (Name ''xr'') ''Dataset'')
                [Subscript (Name ''tree'') (Constant (CStr ''reanalysis''))] [])])
   \<and> (\<exists>st. run_cells (Suc n) (map snd data_structures_code) = Inr st
         \<and> map_of (globals st) ''tree'' = Some (loader ''open_datatree'' ''precipitation.nc4'')
         \<and> map_of (globals st) ''reanalysis'' =
             Some (App (Attr (Module ''xarray'') ''Dataset'')
                     [Index (loader ''open_datatree'' ''precipitation.nc4'')
                        (Const (CStr ''observed''))] [])
         \<and> map_of (globals st) ''observed'' =
             Some (App (Attr (Module ''xarray'') ''Dataset'')
                     [Index (loader ''open_datatree'' ''precipitation.nc4'')
                        (Const (CStr ''reanalysis''))] []))\<close>
proof -
  have lines: \<open>source_lines (cells data_structures ! 53) =
     [''tree = xr.tutorial.open_datatree(\'precipitation.nc4\')\<newline>'',
      ''reanalysis = xr.Dataset(tree[\'observed\'])\<newline>'',
      ''observed = xr.Dataset(tree[\'reanalysis\'])'']\<close>
    by (simp add: data_structures_def cells_def field_def source_lines_def)
  have parsed: "last (filter (\<lambda>c. snd c \<noteq> []) data_structures_code) =
     (53, [Assign (Name ''tree'')
             (Call (Attribute (Attribute (Name ''xr'') ''tutorial'') ''open_datatree'')
                [Constant (CStr ''precipitation.nc4'')] []),
           Assign (Name ''reanalysis'')
             (Call (Attribute (Name ''xr'') ''Dataset'')
                [Subscript (Name ''tree'') (Constant (CStr ''observed''))] []),
           Assign (Name ''observed'')
             (Call (Attribute (Name ''xr'') ''Dataset'')
                [Subscript (Name ''tree'') (Constant (CStr ''reanalysis''))] [])])"
    by (simp add: data_structures_code_def)
  from data_structures_run [of n] obtain st where
    "run_cells (Suc n) (map snd data_structures_code) = Inr st"
    "map_of (globals st) ''tree'' = Some (loader ''open_datatree'' ''precipitation.nc4'')"
    "map_of (globals st) ''reanalysis'' =
       Some (App (Attr (Module ''xarray'') ''Dataset'')
               [Index (loader ''open_datatree'' ''precipitation.nc4'') (Const (CStr ''observed''))] [])"
    "map_of (globals st) ''observed'' =
       Some (App (Attr (Module ''xarray'') ''Dataset'')
               [Index (loader ''open_datatree'' ''precipitation.nc4'') (Const (CStr ''reanalysis''))] [])"
    by blast
  with lines parsed show ?thesis
    by blast
qed

text \<open>
  Of the two embedded notebooks that have code: every operation that a code cell
  performs (every call, every arithmetic operation, every subscript, also inside the
  function that a notebook defines) goes back to the module xarray or numpy, in that its
  callee, its base or one of its operands came out of that module. Whether the library
  or the interpreter carries out such an operation depends on the type of the object,
  which is not known here. Five operations do not go back to these modules, all in the
  second notebook: one call of the builtin \<^verbatim>\<open>type\<close>, two calls of the plotting
  library (\<^verbatim>\<open>plt.figure\<close>, \<^verbatim>\<open>plt.pcolormesh\<close>) and two calls of the builtin
  \<^verbatim>\<open>slice\<close>. The two notebooks define one function, \<^verbatim>\<open>air_as_dictionary\<close>;
  what it returns is a dictionary of attributes and elements of the dataset that it
  loads. The third embedded notebook has no code.
\<close>

theorem operations_belong_to_libraries:
  "(\<exists>st. run_cells (Suc n) (map snd basic_computation_code) = Inr st
      \<and> filter (\<lambda>v. \<not> by_array_library v) (all_operations st) = []
      \<and> defined_functions st = [])
   \<and> (\<exists>st. run_cells (Suc n) (map snd data_structures_code) = Inr st
      \<and> filter (\<lambda>v. \<not> by_array_library v) (all_operations st) =
          [App (Builtin ''type'')
             [Attr (Attr (loader ''load_dataset'' ''air_temperature'') ''air'') ''data''] [],
           App (Attr (Module ''matplotlib.pyplot'') ''figure'') [] [],
           App (Attr (Module ''matplotlib.pyplot'') ''pcolormesh'')
             [Attr (Attr (Attr (loader ''load_dataset'' ''air_temperature'') ''air'') ''lon'') ''data'',
              Attr (Attr (Attr (loader ''load_dataset'' ''air_temperature'') ''air'') ''lat'') ''data'',
              Index (Attr (Attr (loader ''load_dataset'' ''air_temperature'') ''air'') ''data'')
                (TupleV [Const (CInt 0), SliceV None None None, SliceV None None None])] [],
           App (Builtin ''slice'') [Const (CStr ''2013-05''), Const (CStr ''2013-07'')] [],
           App (Builtin ''slice'') [Const (CInt 10)] []]
      \<and> defined_functions st = [(''air_as_dictionary'', Closure [] air_as_dictionary_body)]
      \<and> map_of (globals st) ''data'' =
          Some (DictV
            [Const (CStr ''lat''), Const (CStr ''lon''), Const (CStr ''attrs''),
             Const (CStr ''time''), Const (CStr ''air-temp'')]
            [Attr (Index (loader ''open_dataset'' ''air_temperature'') (Const (CStr ''lat''))) ''values'',
             Attr (Index (loader ''open_dataset'' ''air_temperature'') (Const (CStr ''lon''))) ''values'',
             Attr (loader ''open_dataset'' ''air_temperature'') ''attrs'',
             Attr (Index (loader ''open_dataset'' ''air_temperature'') (Const (CStr ''time''))) ''values'',
             Attr (Index (loader ''open_dataset'' ''air_temperature'') (Const (CStr ''air''))) ''values'']))
   \<and> scipy2025_index_code = []"
  using basic_computation_run [of n] data_structures_run [of n]
  by (simp add: scipy2025_index_code_def) blast

text \<open>
  The second notebook sets an attribute of its own on a dataset: it stores
  \<^verbatim>\<open>who_is_awesome = "xarray"\<close> into the attributes of the air temperature array
  that it loaded.
\<close>

theorem notebook_sets_an_attribute:
  "map_sum id stores (run_cells (Suc 0) (map snd data_structures_code)) =
     Inr [Stored (Attr (Attr (loader ''load_dataset'' ''air_temperature'') ''air'') ''attrs'')
            (Const (CStr ''who_is_awesome'')) (Const (CStr ''xarray''))]"
  using data_structures_run [of 0] by auto

text \<open>
  Of the two embedded notebooks that have code: the calls into a library that take no
  computed value are the calls of the tutorial loader of the array library
  (\<^verbatim>\<open>load_dataset\<close>, \<^verbatim>\<open>open_dataset\<close>, \<^verbatim>\<open>open_datatree\<close>), each with the
  name of a dataset, and besides them only \<^verbatim>\<open>xr.set_options\<close> and
  \<^verbatim>\<open>plt.figure\<close>. The only subscript store is the attribute
  \<^verbatim>\<open>who_is_awesome\<close> of the second notebook. What the loader does with the name is
  not modelled, and a value that a notebook would build with builtins or literals and
  hand to a library is not a source in this sense.
\<close>

theorem data_enters_through_the_loader:
  "(\<exists>st. run_cells (Suc n) (map snd basic_computation_code) = Inr st
      \<and> filter is_loader_call (sources st) = [loader ''load_dataset'' ''ersstv5'']
      \<and> filter (\<lambda>v. \<not> is_loader_call v) (sources st) =
          [App (Attr (Module ''xarray'') ''set_options'') []
             [KwArg ''display_expand_data'' (Const (CBool False))]]
      \<and> stores st = [])
   \<and> (\<exists>st. run_cells (Suc n) (map snd data_structures_code) = Inr st
      \<and> filter is_loader_call (sources st) =
          [loader ''open_dataset'' ''air_temperature'',
           loader ''load_dataset'' ''air_temperature'',
           loader ''open_datatree'' ''precipitation.nc4'']
      \<and> filter (\<lambda>v. \<not> is_loader_call v) (sources st) =
          [App (Attr (Module ''matplotlib.pyplot'') ''figure'') [] []]
      \<and> stores st =
          [Stored (Attr (Attr (loader ''load_dataset'' ''air_temperature'') ''air'') ''attrs'')
             (Const (CStr ''who_is_awesome'')) (Const (CStr ''xarray''))])
   \<and> scipy2025_index_code = []"
proof -
  from basic_computation_run [of n] obtain s1 where s1:
    "run_cells (Suc n) (map snd basic_computation_code) = Inr s1"
    "sources s1 =
       [App (Attr (Module ''xarray'') ''set_options'') []
          [KwArg ''display_expand_data'' (Const (CBool False))],
        loader ''load_dataset'' ''ersstv5'']"
    "stores s1 = []"
    by blast
  from data_structures_run [of n] obtain s2 where s2:
    "run_cells (Suc n) (map snd data_structures_code) = Inr s2"
    "sources s2 =
       [loader ''open_dataset'' ''air_temperature'',
        App (Attr (Module ''matplotlib.pyplot'') ''figure'') [] [],
        loader ''load_dataset'' ''air_temperature'',
        loader ''open_datatree'' ''precipitation.nc4'']"
    "stores s2 =
       [Stored (Attr (Attr (loader ''load_dataset'' ''air_temperature'') ''air'') ''attrs'')
          (Const (CStr ''who_is_awesome'')) (Const (CStr ''xarray''))]"
    by blast
  have "filter is_loader_call (sources s1) = [loader ''load_dataset'' ''ersstv5'']"
    "filter (\<lambda>v. \<not> is_loader_call v) (sources s1) =
       [App (Attr (Module ''xarray'') ''set_options'') []
          [KwArg ''display_expand_data'' (Const (CBool False))]]"
    by (simp_all add: s1 is_loader_call_def loader_def)
  moreover have "filter is_loader_call (sources s2) =
       [loader ''open_dataset'' ''air_temperature'',
        loader ''load_dataset'' ''air_temperature'',
        loader ''open_datatree'' ''precipitation.nc4'']"
    "filter (\<lambda>v. \<not> is_loader_call v) (sources s2) =
       [App (Attr (Module ''matplotlib.pyplot'') ''figure'') [] []]"
    by (simp_all add: s2 is_loader_call_def loader_def)
  ultimately show ?thesis
    using s1 s2 by (simp add: scipy2025_index_code_def)
qed

text \<open>
  Run in order from the first code cell to the last, no notebook reads a name before it
  is bound, and none exceeds a recursion limit of one call or more: every run ends in a
  state, not in an error of the interpreter.
\<close>

theorem notebooks_run_to_the_end:
  "(\<exists>st. run_cells (Suc n) (map snd basic_computation_code) = Inr st)
   \<and> (\<exists>st. run_cells (Suc n) (map snd data_structures_code) = Inr st)
   \<and> (\<exists>st. run_cells (Suc n) (map snd scipy2025_index_code) = Inr st)"
  using basic_computation_run [of n] data_structures_run [of n] scipy2025_index_run [of "Suc n"]
  by blast

end
